theory Spec2Isabelle
  imports Complex_Main "HOL-Library.AList"
begin

section \<open>The MELCloud control cycle of \<open>main.py\<close>\<close>

text \<open>
  One run of \<open>main.py\<close> is one control cycle: it reads the two JSON files, asks the
  weather service for the outdoor temperature, logs in to MELCloud, reads the pending
  Telegram messages, walks over the devices and finally writes the files back.

  The embedding is shallow and effects are explicit. Everything the cycle reads from
  outside is a field of the record \<open>entorno\<close>; the three files are the record
  \<open>archivos\<close>, passed in and returned; every visible effect (a log line, a Telegram
  message posted, a call of \<open>dev.set\<close>, a file written) is an \<open>evento\<close> of the trace
  the cycle returns, in the order the code performs it. A Python exception is a value
  of type \<open>excepcion\<close> carried out of the function that raises it.

  Python floats (temperatures, \<open>time.time()\<close>) are modelled as \<open>real\<close>: comparisons
  are the ones of the code, and the only arithmetic is \<open>ahora_ts + 3600\<close>, whose
  rounding (far below a second for any clock value) is not modelled.
  Strings are byte lists (UTF-8).

  What is taken from outside as well-formed: an entry of the memory store has its three
  keys, an update of the poll has its \<open>update_id\<close> and a text that is a string when
  present, and the writes at the end of the cycle succeed. The variable \<open>es_finde\<close> of
  \<open>main\<close> is never read and has no counterpart here.
\<close>

subsection \<open>Configuration constants\<close>

definition UMBRAL_SEGURIDAD_FRIO :: real where
  "UMBRAL_SEGURIDAD_FRIO = - 2"

definition UMBRAL_BUEN_TIEMPO_INVIERNO :: real where
  "UMBRAL_BUEN_TIEMPO_INVIERNO = 19"

definition UMBRAL_CORTE_VERANO :: real where
  "UMBRAL_CORTE_VERANO = 22"

definition DURACION_BLOQUEO_MANUAL :: real where
  "DURACION_BLOQUEO_MANUAL = 3600"

text \<open>The first key is \<open>Sal\<acute>on\<close> with an accented o, bytes C3 B3 in UTF-8.\<close>

definition nombre_salon :: string where
  "nombre_salon = ''Sal'' @ [CHR 0xC3, CHR 0xB3] @ ''n''"

definition TEMP_OBJETIVOS :: "(string \<times> real) list" where
  "TEMP_OBJETIVOS =
     [(nombre_salon, 22.5), (''Dormitorio'', 21), (''Jimena'', 21), (''Elisa'', 21)]"

definition DEFAULT_TEMP_AUTO :: real where
  "DEFAULT_TEMP_AUTO = 21"

subsection \<open>Data\<close>

text \<open>
  A device as \<open>pymelcloud\<close> presents it after \<open>update()\<close>. The field \<open>set_ok\<close> is the
  environment's answer to a call of \<open>dev.set\<close> in this cycle: \<open>False\<close> means that the
  call raises.
\<close>

record dispositivo =
  name :: string
  power :: bool
  target_temperature :: real
  set_ok :: bool

text \<open>One entry of \<open>estado_melcloud.json\<close>, with the three keys the program writes.\<close>

record memoria =
  mem_power :: bool
  mem_target_temperature :: real
  bloqueo_hasta :: real

text \<open>
  \<open>estados_previos\<close> is a Python dict: insertion ordered, keys unique. Lookup is
  \<open>map_of\<close>; assignment to a key is \<open>AList.update\<close>, which replaces the value in
  place or appends a new key at the end, as the dict does.
\<close>

type_synonym estados = "(string \<times> memoria) list"

text \<open>The registry in memory, after \<open>main\<close> has filled in the two defaults.\<close>

record registro =
  last_telegram_update_id :: int
  stop_mode :: bool

text \<open>The registry as found in \<open>ultima_accion.json\<close>: either key may be absent.\<close>

record registro_json =
  rj_last_telegram_update_id :: "int option"
  rj_stop_mode :: "bool option"

text \<open>A file is absent, present but not parseable, or present with a content.\<close>

datatype 'a archivo = Ausente | Ilegible | Contenido 'a

text \<open>
  The history file holds a header and one line per completed cycle. The line's four
  power columns are read from the device objects after any \<open>set\<close>; what \<open>set\<close> does to
  the object is the library's, so a line is represented by its temperature column.
\<close>

datatype fila = Cabecera | Fila real

record archivos =
  state_file :: "estados archivo"
  last_action_file :: "registro_json archivo"
  historico :: "fila list option"

text \<open>The argument of \<open>dev.set\<close>: power off, or power on in heat mode at a target.\<close>

datatype orden = Apagar | Calentar real

text \<open>The messages handed to \<open>enviar_telegram\<close>, by their content.\<close>

datatype aviso =
    AvisoReset
  | AvisoStop
  | AvisoStart
  | AvisoInfo bool bool "(string \<times> bool \<times> real) list"
  | AvisoCaldera
  | AvisoManual string real
  | AvisoSeguridad string
  | AvisoFresco string
  | AvisoStopApagado string
  | AvisoNoche string
  | AvisoApoyo string real

datatype excepcion = FalloMelcloud | FalloSet string

datatype linea_log =
    LogInicio
  | LogErrorLeyendo string
  | LogTempExterior real
  | LogErrorClima
  | LogAvisoCaldera
  | LogErrorTelegram
  | LogDispositivo string bool real real
  | LogManual string
  | LogBloqueo string
  | LogAjustando string real
  | LogFin
  | LogFatal excepcion

datatype evento =
    Log linea_log
  | Telegram aviso real
  | DevSet string orden bool
  | SaveState estados
  | SaveRegistro registro
  | AppendCsv real

text \<open>One element of the \<open>result\<close> array of \<open>getUpdates\<close>.\<close>

record update =
  update_id :: int
  message_text :: "string option"

text \<open>\<open>getUpdates\<close> raises, or answers with a status and (on 200) a list of updates.\<close>

datatype respuesta = PollExcepcion | PollRespuesta nat "update list"

record entorno =
  bot_token :: bool
  chat_id :: bool
  ahora_hour :: nat
  ahora_minute :: nat
  ahora_month :: nat
  ahora_ts :: real
  clima :: "real option"
  melcloud :: "dispositivo list option"
  get_updates :: "int \<Rightarrow> respuesta"

subsection \<open>Strings: \<open>lower\<close> and \<open>in\<close>\<close>

text \<open>
  \<open>str.lower()\<close> on the bytes of the text: the letters A to Z move to a to z. The four
  directives are ASCII and no other byte of a UTF-8 text is an ASCII byte, so the
  containment tests below see what Python sees.
\<close>

definition lower_char :: "char \<Rightarrow> char" where
  "lower_char c =
     (let n = (of_char c :: nat) in if 65 \<le> n \<and> n \<le> 90 then char_of (n + 32) else c)"

definition lower :: "string \<Rightarrow> string" where
  "lower s = map lower_char s"

text \<open>\<open>needle in haystack\<close> for strings: some suffix of the haystack starts with the needle.\<close>

fun empieza_con :: "string \<Rightarrow> string \<Rightarrow> bool" where
  "empieza_con [] s = True"
| "empieza_con (c # cs) [] = False"
| "empieza_con (c # cs) (d # ds) = (c = d \<and> empieza_con cs ds)"

fun str_in :: "string \<Rightarrow> string \<Rightarrow> bool" where
  "str_in needle [] = empieza_con needle []"
| "str_in needle (d # ds) = (empieza_con needle (d # ds) \<or> str_in needle ds)"

subsection \<open>Files\<close>

text \<open>\<open>load_json(path, default)\<close>: the content, or the default with a logged error.\<close>

definition load_json :: "string \<Rightarrow> 'a archivo \<Rightarrow> 'a \<Rightarrow> 'a \<times> evento list" where
  "load_json path f dflt =
     (case f of
        Ausente \<Rightarrow> (dflt, [])
      | Ilegible \<Rightarrow> (dflt, [Log (LogErrorLeyendo path)])
      | Contenido x \<Rightarrow> (x, []))"

definition guardar_resumen_csv :: "real \<Rightarrow> fila list option \<Rightarrow> fila list option" where
  "guardar_resumen_csv temp_ext h =
     Some ((case h of None \<Rightarrow> [Cabecera] | Some filas \<Rightarrow> filas) @ [Fila temp_ext])"

subsection \<open>Telegram\<close>

text \<open>
  \<open>enviar_telegram\<close> posts the message unless a credential is missing. It catches its
  own exceptions, so it never raises; the log lines about the delivery are left out.
\<close>

definition enviar_telegram :: "entorno \<Rightarrow> aviso \<Rightarrow> real \<Rightarrow> evento list" where
  "enviar_telegram env msg temp =
     (if \<not> bot_token env \<or> \<not> chat_id env then [] else [Telegram msg temp])"

text \<open>Line 102: every stored entry gets \<open>bloqueo_hasta = 0\<close>.\<close>

definition reset_bloqueos :: "estados \<Rightarrow> estados" where
  "reset_bloqueos estados_previos =
     map (\<lambda>(dev_name, mem). (dev_name, mem\<lparr>bloqueo_hasta := 0\<rparr>)) estados_previos"

text \<open>Line 100: the text of the message, or the empty string, in lower case.\<close>

definition texto :: "update \<Rightarrow> string" where
  "texto result = lower (case message_text result of None \<Rightarrow> [] | Some t \<Rightarrow> t)"

text \<open>The body of the loop over the updates, lines 99 to 113.\<close>

definition procesar_update ::
  "entorno \<Rightarrow> real \<Rightarrow> dispositivo list \<Rightarrow> bool \<Rightarrow> update \<Rightarrow>
   registro \<times> estados \<times> evento list \<Rightarrow> registro \<times> estados \<times> evento list" where
  "procesar_update env temp_ext devices en_horario result st =
     (case st of (registro0, estados0, evs0) \<Rightarrow>
      let registro1 = registro0\<lparr>last_telegram_update_id := update_id result\<rparr>;
          msg_text = texto result;
          (estados1, evs1) =
             (if str_in ''/reset'' msg_text
              then (reset_bloqueos estados0, evs0 @ enviar_telegram env AvisoReset temp_ext)
              else (estados0, evs0));
          (registro2, evs2) =
             (if str_in ''/stop'' msg_text
              then (registro1\<lparr>stop_mode := True\<rparr>, evs1 @ enviar_telegram env AvisoStop temp_ext)
              else (registro1, evs1));
          (registro3, evs3) =
             (if str_in ''/start'' msg_text
              then (registro2\<lparr>stop_mode := False\<rparr>, evs2 @ enviar_telegram env AvisoStart temp_ext)
              else (registro2, evs2));
          evs4 =
             (if str_in ''/info'' msg_text
              then evs3 @ enviar_telegram env
                     (AvisoInfo en_horario (stop_mode registro3)
                        (map (\<lambda>d. (name d, power d, target_temperature d)) devices))
                     temp_ext
              else evs3)
      in (registro3, estados1, evs4))"

definition check_telegram_commands ::
  "entorno \<Rightarrow> registro \<Rightarrow> estados \<Rightarrow> real \<Rightarrow> dispositivo list \<Rightarrow> bool \<Rightarrow>
   registro \<times> estados \<times> evento list" where
  "check_telegram_commands env registro0 estados_previos temp_ext devices en_horario =
     (if \<not> bot_token env then (registro0, estados_previos, [])
      else
        (case get_updates env (last_telegram_update_id registro0 + 1) of
           PollExcepcion \<Rightarrow> (registro0, estados_previos, [Log LogErrorTelegram])
         | PollRespuesta status results \<Rightarrow>
             if status = 200
             then foldl (\<lambda>st result. procesar_update env temp_ext devices en_horario result st)
                    (registro0, estados_previos, []) results
             else (registro0, estados_previos, [])))"

subsection \<open>The decision engine\<close>

definition temp_objetivo :: "string \<Rightarrow> real" where
  "temp_objetivo dev_name =
     (case map_of TEMP_OBJETIVOS dev_name of None \<Rightarrow> DEFAULT_TEMP_AUTO | Some t \<Rightarrow> t)"

text \<open>
  \<open>estados_previos.get(dev.name, {...})\<close>, line 158: the stored entry, or a fresh one
  built from what the device shows now.
\<close>

definition recuperar_memoria :: "estados \<Rightarrow> dispositivo \<Rightarrow> memoria" where
  "recuperar_memoria estados_previos dev =
     (case map_of estados_previos (name dev) of
        Some mem \<Rightarrow> mem
      | None \<Rightarrow> \<lparr>mem_power = power dev, mem_target_temperature = target_temperature dev,
                 bloqueo_hasta = 0\<rparr>)"

text \<open>Lines 163 to 167: a difference from the memory arms the lockout if none is running.\<close>

definition cambio_manual :: "memoria \<Rightarrow> dispositivo \<Rightarrow> bool" where
  "cambio_manual mem dev \<longleftrightarrow>
     mem_power mem \<noteq> power dev \<or> mem_target_temperature mem \<noteq> target_temperature dev"

definition gestion_bloqueo ::
  "entorno \<Rightarrow> real \<Rightarrow> dispositivo \<Rightarrow> memoria \<Rightarrow> memoria \<times> evento list" where
  "gestion_bloqueo env temp_ext dev mem =
     (if cambio_manual mem dev
      then (if ahora_ts env > bloqueo_hasta mem
            then (mem\<lparr>bloqueo_hasta := ahora_ts env + DURACION_BLOQUEO_MANUAL\<rparr>,
                  Log (LogManual (name dev))
                  # enviar_telegram env (AvisoManual (name dev) (target_temperature dev)) temp_ext)
            else (mem, []))
      else (mem, []))"

text \<open>Line 170: the memory takes the observed power and target.\<close>

definition actualizar_memoria :: "dispositivo \<Rightarrow> memoria \<Rightarrow> memoria" where
  "actualizar_memoria dev mem =
     mem\<lparr>mem_power := power dev, mem_target_temperature := target_temperature dev\<rparr>"

text \<open>
  The pattern of the four switch-off branches: if the device is on, call
  \<open>dev.set({"power": False})\<close>; when the call returns, record the power in the memory
  and choose the message; when it raises, nothing after it runs.
  The result is the memory, the events, \<open>accion_tomada\<close> and the exception if any.
\<close>

definition apagar ::
  "dispositivo \<Rightarrow> memoria \<Rightarrow> aviso \<Rightarrow> memoria \<times> evento list \<times> aviso option \<times> excepcion option" where
  "apagar dev mem accion =
     (if power dev
      then (if set_ok dev
            then (mem\<lparr>mem_power := False\<rparr>, [DevSet (name dev) Apagar True], Some accion, None)
            else (mem, [DevSet (name dev) Apagar False], None, Some (FalloSet (name dev))))
      else (mem, [], None, None))"

text \<open>Lines 207 to 211, the body of the comfort branch.\<close>

definition apoyar ::
  "dispositivo \<Rightarrow> memoria \<Rightarrow> real \<Rightarrow> memoria \<times> evento list \<times> aviso option \<times> excepcion option" where
  "apoyar dev mem temp_objetivo_actual =
     (if \<not> power dev \<or> target_temperature dev \<noteq> temp_objetivo_actual
      then (if set_ok dev
            then (mem\<lparr>mem_power := True, mem_target_temperature := temp_objetivo_actual\<rparr>,
                  [Log (LogAjustando (name dev) temp_objetivo_actual),
                   DevSet (name dev) (Calentar temp_objetivo_actual) True],
                  Some (AvisoApoyo (name dev) temp_objetivo_actual), None)
            else (mem,
                  [Log (LogAjustando (name dev) temp_objetivo_actual),
                   DevSet (name dev) (Calentar temp_objetivo_actual) False],
                  None, Some (FalloSet (name dev))))
      else (mem, [], None, None))"

text \<open>Lines 178 to 214: the chain of rules, then the message for the action taken.\<close>

definition motor_decision ::
  "entorno \<Rightarrow> registro \<Rightarrow> real \<Rightarrow> bool \<Rightarrow> bool \<Rightarrow> real \<Rightarrow> dispositivo \<Rightarrow> memoria \<Rightarrow>
   memoria \<times> evento list \<times> excepcion option" where
  "motor_decision env registro0 temp_ext es_invierno en_horario temp_objetivo_actual dev mem =
     (case
        (if temp_ext < UMBRAL_SEGURIDAD_FRIO then apagar dev mem (AvisoSeguridad (name dev))
         else if \<not> es_invierno \<and> temp_ext < UMBRAL_CORTE_VERANO
           then apagar dev mem (AvisoFresco (name dev))
         else if stop_mode registro0 then apagar dev mem (AvisoStopApagado (name dev))
         else if es_invierno
           then (if \<not> en_horario then apagar dev mem (AvisoNoche (name dev))
                 else if en_horario \<and> temp_ext \<le> UMBRAL_BUEN_TIEMPO_INVIERNO
                   then apoyar dev mem temp_objetivo_actual
                 else (mem, [], None, None))
         else (mem, [], None, None))
      of
        (mem', evs, accion_tomada, Some e) \<Rightarrow> (mem', evs, Some e)
      | (mem', evs, None, None) \<Rightarrow> (mem', evs, None)
      | (mem', evs, Some accion, None) \<Rightarrow> (mem', evs @ enviar_telegram env accion temp_ext, None))"

text \<open>
  The body of the loop over the devices, lines 156 to 214. \<open>mem\<close> is the very dict
  stored under the device's name, so what the decision engine writes to it is seen in
  \<open>estados_previos\<close>; when \<open>dev.set\<close> raises, the stored entry is the refreshed one.
\<close>

definition procesar_dispositivo ::
  "entorno \<Rightarrow> registro \<Rightarrow> real \<Rightarrow> bool \<Rightarrow> bool \<Rightarrow> estados \<Rightarrow> dispositivo \<Rightarrow>
   estados \<times> evento list \<times> excepcion option" where
  "procesar_dispositivo env registro0 temp_ext es_invierno en_horario estados_previos dev =
     (let temp_objetivo_actual = temp_objetivo (name dev);
          mem0 = recuperar_memoria estados_previos dev;
          evs0 = [Log (LogDispositivo (name dev) (power dev) (target_temperature dev)
                         temp_objetivo_actual)];
          (mem1, evs1) = gestion_bloqueo env temp_ext dev mem0;
          mem2 = actualizar_memoria dev mem1;
          estados1 = AList.update (name dev) mem2 estados_previos
      in if bloqueo_hasta mem2 > ahora_ts env
         then (estados1, evs0 @ evs1 @ [Log (LogBloqueo (name dev))], None)
         else (case motor_decision env registro0 temp_ext es_invierno en_horario
                      temp_objetivo_actual dev mem2 of
                 (mem3, evs2, exc) \<Rightarrow>
                   (AList.update (name dev) mem3 estados1, evs0 @ evs1 @ evs2, exc)))"

text \<open>The \<open>for dev in devices\<close> loop: an exception ends it.\<close>

fun bucle_dispositivos ::
  "entorno \<Rightarrow> registro \<Rightarrow> real \<Rightarrow> bool \<Rightarrow> bool \<Rightarrow> dispositivo list \<Rightarrow> estados \<Rightarrow>
   estados \<times> evento list \<times> excepcion option" where
  "bucle_dispositivos env registro0 temp_ext es_invierno en_horario [] estados_previos =
     (estados_previos, [], None)"
| "bucle_dispositivos env registro0 temp_ext es_invierno en_horario (dev # devs) estados_previos =
     (case procesar_dispositivo env registro0 temp_ext es_invierno en_horario estados_previos dev of
        (estados1, evs1, Some e) \<Rightarrow> (estados1, evs1, Some e)
      | (estados1, evs1, None) \<Rightarrow>
          (case bucle_dispositivos env registro0 temp_ext es_invierno en_horario devs estados1 of
             (estados2, evs2, exc) \<Rightarrow> (estados2, evs1 @ evs2, exc)))"

subsection \<open>The cycle\<close>

definition registro_inicial :: "registro_json \<Rightarrow> registro" where
  "registro_inicial rj =
     \<lparr>last_telegram_update_id =
        (case rj_last_telegram_update_id rj of None \<Rightarrow> 0 | Some i \<Rightarrow> i),
      stop_mode = (case rj_stop_mode rj of None \<Rightarrow> False | Some b \<Rightarrow> b)\<rparr>"

definition registro_a_json :: "registro \<Rightarrow> registro_json" where
  "registro_a_json r =
     \<lparr>rj_last_telegram_update_id = Some (last_telegram_update_id r),
      rj_stop_mode = Some (stop_mode r)\<rparr>"

definition es_invierno_de :: "entorno \<Rightarrow> bool" where
  "es_invierno_de env \<longleftrightarrow> ahora_month env \<ge> 10 \<or> ahora_month env \<le> 5"

definition en_horario_de :: "entorno \<Rightarrow> bool" where
  "en_horario_de env \<longleftrightarrow>
     (let minutos = ahora_hour env * 60 + ahora_minute env in 390 \<le> minutos \<and> minutos < 1380)"

text \<open>Lines 144 to 146.\<close>

definition aviso_caldera :: "entorno \<Rightarrow> real \<Rightarrow> evento list" where
  "aviso_caldera env temp_ext =
     (if es_invierno_de env \<and> temp_ext \<le> 1
      then Log LogAvisoCaldera # enviar_telegram env AvisoCaldera temp_ext
      else [])"

text \<open>Lines 216 to 220: the two JSON files, the history line, the closing log line.\<close>

definition guardado_final ::
  "archivos \<Rightarrow> estados \<Rightarrow> registro \<Rightarrow> real \<Rightarrow> archivos \<times> evento list" where
  "guardado_final files estados_previos registro0 temp_ext =
     (files\<lparr>state_file := Contenido estados_previos,
            last_action_file := Contenido (registro_a_json registro0),
            historico := guardar_resumen_csv temp_ext (historico files)\<rparr>,
      [SaveState estados_previos, SaveRegistro registro0, AppendCsv temp_ext, Log LogFin])"

text \<open>
  \<open>main\<close>. The result is the files after the cycle, the trace, and the exception that
  left \<open>main\<close> if one did. The weather failure is caught inside and is a plain return.
\<close>

definition main :: "entorno \<Rightarrow> archivos \<Rightarrow> archivos \<times> evento list \<times> excepcion option" where
  "main env files =
     (let (rj, evs_r) = load_json ''ultima_accion.json'' (last_action_file files)
                          \<lparr>rj_last_telegram_update_id = None, rj_stop_mode = None\<rparr>;
          (estados_previos, evs_e) = load_json ''estado_melcloud.json'' (state_file files) [];
          registro0 = registro_inicial rj;
          es_invierno = es_invierno_de env;
          en_horario = en_horario_de env;
          evs0 = Log LogInicio # evs_r @ evs_e
      in case clima env of
           None \<Rightarrow> (files, evs0 @ [Log LogErrorClima], None)
         | Some temp_ext \<Rightarrow>
             (let evs1 = evs0 @ [Log (LogTempExterior temp_ext)] @ aviso_caldera env temp_ext
              in case melcloud env of
                   None \<Rightarrow> (files, evs1, Some FalloMelcloud)
                 | Some devices \<Rightarrow>
                     (case check_telegram_commands env registro0 estados_previos temp_ext devices
                             en_horario of
                        (registro1, estados1, evs_c) \<Rightarrow>
                          (case bucle_dispositivos env registro1 temp_ext es_invierno en_horario
                                  devices estados1 of
                             (estados2, evs_d, Some e) \<Rightarrow> (files, evs1 @ evs_c @ evs_d, Some e)
                           | (estados2, evs_d, None) \<Rightarrow>
                               (case guardado_final files estados2 registro1 temp_ext of
                                  (files', evs_g) \<Rightarrow>
                                    (files', evs1 @ evs_c @ evs_d @ evs_g, None))))))"

text \<open>\<open>run_safe\<close>: whatever leaves \<open>main\<close> is caught and logged.\<close>

definition run_safe :: "entorno \<Rightarrow> archivos \<Rightarrow> archivos \<times> evento list" where
  "run_safe env files =
     (case main env files of
        (files', evs, None) \<Rightarrow> (files', evs)
      | (files', evs, Some e) \<Rightarrow> (files', evs @ [Log (LogFatal e)]))"

subsection \<open>Reading a trace\<close>

text \<open>A device command is a call of \<open>dev.set\<close>; a write is one of the three files.\<close>

fun es_orden :: "evento \<Rightarrow> bool" where
  "es_orden (DevSet n ord ok) = True"
| "es_orden e = False"

fun es_escritura :: "evento \<Rightarrow> bool" where
  "es_escritura (SaveState e) = True"
| "es_escritura (SaveRegistro r) = True"
| "es_escritura (AppendCsv t) = True"
| "es_escritura e = False"

subsection \<open>Concrete inputs\<close>

text \<open>A winter morning inside the active hours, five degrees below zero outside.\<close>

definition entorno_ejemplo :: entorno where
  "entorno_ejemplo =
     \<lparr>bot_token = True, chat_id = True, ahora_hour = 10, ahora_minute = 30, ahora_month = 1,
      ahora_ts = 100, clima = Some (- 5), melcloud = Some [],
      get_updates = (\<lambda>offset. PollRespuesta 200 [])\<rparr>"

definition archivos_vacios :: archivos where
  "archivos_vacios = \<lparr>state_file = Ausente, last_action_file = Ausente, historico = None\<rparr>"

definition elisa :: dispositivo where
  "elisa = \<lparr>name = ''Elisa'', power = True, target_temperature = 21, set_ok = True\<rparr>"

definition elisa_apagada :: dispositivo where
  "elisa_apagada = \<lparr>name = ''Elisa'', power = False, target_temperature = 21, set_ok = True\<rparr>"

definition registro_ejemplo :: registro where
  "registro_ejemplo = \<lparr>last_telegram_update_id = 0, stop_mode = False\<rparr>"

text \<open>A stored entry that agrees with \<open>elisa\<close> and whose lockout ends at time 100.\<close>

definition estados_ejemplo :: estados where
  "estados_ejemplo =
     [(''Elisa'', \<lparr>mem_power = True, mem_target_temperature = 21, bloqueo_hasta = 100\<rparr>)]"

text \<open>
  What "the text contains the directive" means, independently of how \<open>str_in\<close>
  searches: the directive stands somewhere between a prefix and a suffix.
\<close>

definition subcadena :: "string \<Rightarrow> string \<Rightarrow> bool" where
  "subcadena needle s \<longleftrightarrow> (\<exists>pre suf. s = pre @ needle @ suf)"

text \<open>Every entry of the store has its lockout at zero.\<close>

definition sin_bloqueos :: "estados \<Rightarrow> bool" where
  "sin_bloqueos e \<longleftrightarrow> list_all (\<lambda>(n, mem). bloqueo_hasta mem = 0) e"

text \<open>Two messages, and an environment whose poll delivers the second.\<close>

definition mensaje_stop_start :: update where
  "mensaje_stop_start = \<lparr>update_id = 7, message_text = Some ''Por favor /STOP y luego /Start''\<rparr>"

definition mensaje_reset :: update where
  "mensaje_reset = \<lparr>update_id = 8, message_text = Some ''haz /RESET ya''\<rparr>"

definition entorno_reset :: entorno where
  "entorno_reset =
     entorno_ejemplo\<lparr>ahora_ts := 50, get_updates := (\<lambda>offset. PollRespuesta 200 [mensaje_reset])\<rparr>"

text \<open>The log line of line 165, written exactly when a lockout is armed.\<close>

fun es_manual :: "evento \<Rightarrow> bool" where
  "es_manual (Log (LogManual n)) = True"
| "es_manual e = False"

text \<open>The detection and refresh of one cycle, lines 163 to 170, on a memory.\<close>

definition deteccion :: "entorno \<Rightarrow> real \<Rightarrow> dispositivo \<Rightarrow> memoria \<Rightarrow> memoria \<times> evento list" where
  "deteccion env temp_ext dev mem =
     (case gestion_bloqueo env temp_ext dev mem of
        (mem1, evs1) \<Rightarrow> (actualizar_memoria dev mem1, evs1))"

text \<open>A stored entry that says the device is off, with a lockout until time 100.\<close>

definition memoria_apagada :: memoria where
  "memoria_apagada = \<lparr>mem_power = False, mem_target_temperature = 21, bloqueo_hasta = 100\<rparr>"

text \<open>A call of \<open>dev.set\<close> that raised.\<close>

fun es_fallo :: "evento \<Rightarrow> bool" where
  "es_fallo (DevSet n ord ok) = (\<not> ok)"
| "es_fallo e = False"

text \<open>The outcome of a stretch of the device loop, as its trace and exception show it.\<close>

definition traza_coherente :: "evento list \<Rightarrow> excepcion option \<Rightarrow> bool" where
  "traza_coherente evs exc \<longleftrightarrow>
     list_all (\<lambda>e. \<not> es_escritura e) evs
     \<and> (case exc of
          None \<Rightarrow> list_all (\<lambda>e. \<not> es_fallo e) evs
        | Some x \<Rightarrow> evs \<noteq> [] \<and> list_all (\<lambda>e. \<not> es_fallo e) (butlast evs)
                    \<and> (\<exists>n ord. x = FalloSet n \<and> last evs = DevSet n ord False))"

text \<open>A device whose \<open>set\<close> raises, ahead of one whose \<open>set\<close> works.\<close>

definition jimena_falla :: dispositivo where
  "jimena_falla = \<lparr>name = ''Jimena'', power = True, target_temperature = 21, set_ok = False\<rparr>"

definition entorno_fallo :: entorno where
  "entorno_fallo = entorno_ejemplo\<lparr>melcloud := Some [jimena_falla, elisa]\<rparr>"

text \<open>The registry \<open>main\<close> starts from: the file's content with the two defaults.\<close>

definition registro_cargado :: "archivos \<Rightarrow> registro" where
  "registro_cargado files =
     registro_inicial (fst (load_json ''ultima_accion.json'' (last_action_file files)
                              \<lparr>rj_last_telegram_update_id = None, rj_stop_mode = None\<rparr>))"

text \<open>The poll of this cycle delivers a message that contains \<open>/reset\<close>.\<close>

definition reset_pedido :: "entorno \<Rightarrow> registro \<Rightarrow> bool" where
  "reset_pedido env registro0 \<longleftrightarrow>
     bot_token env
     \<and> (case get_updates env (last_telegram_update_id registro0 + 1) of
          PollExcepcion \<Rightarrow> False
        | PollRespuesta status results \<Rightarrow>
            status = 200 \<and> list_ex (\<lambda>u. str_in ''/reset'' (texto u)) results)"

text \<open>A store that says the device is off, and a cycle at time 200 that finds it on.\<close>

definition archivos_con_memoria :: archivos where
  "archivos_con_memoria =
     \<lparr>state_file = Contenido [(''Elisa'', memoria_apagada)], last_action_file = Ausente,
      historico = None\<rparr>"

definition entorno_manual :: entorno where
  "entorno_manual = entorno_ejemplo\<lparr>ahora_ts := 200, melcloud := Some [elisa]\<rparr>"

section \<open>Properties\<close>

subsection \<open>Auxiliary facts\<close>

lemma load_json_eventos:
  "load_json p f d = (x, evs) \<Longrightarrow> e \<in> set evs \<Longrightarrow> e = Log (LogErrorLeyendo p)"
  by (cases f) (auto simp: load_json_def)

subsection \<open>Weather failure\<close>

text \<open>
  C7. When the weather request fails or its answer is malformed (\<open>clima env = None\<close>),
  \<open>main\<close> returns at once: the files are the ones it found, the trace holds no call of
  \<open>dev.set\<close> and no write of the memory store, the registry or the history, its last
  entry is the weather error, and no exception leaves \<open>main\<close>.
\<close>

theorem clima_fallido_aborta:
  assumes "clima env = None"
  shows "fst (main env files) = files
       \<and> (\<forall>e \<in> set (fst (snd (main env files))). \<not> es_orden e \<and> \<not> es_escritura e)
       \<and> last (fst (snd (main env files))) = Log LogErrorClima
       \<and> snd (snd (main env files)) = None
       \<and> run_safe env files = (fst (main env files), fst (snd (main env files)))"
  using assms
  by (auto simp: main_def run_safe_def Let_def split: prod.splits dest: load_json_eventos)

theorem clima_fallido_aborta_witness:
  "clima (entorno_ejemplo\<lparr>clima := None\<rparr>) = None
   \<and> fst (main (entorno_ejemplo\<lparr>clima := None\<rparr>) archivos_vacios) = archivos_vacios
   \<and> fst (snd (main (entorno_ejemplo\<lparr>clima := None\<rparr>) archivos_vacios))
       = [Log LogInicio, Log LogErrorClima]"
  using clima_fallido_aborta[of "entorno_ejemplo\<lparr>clima := None\<rparr>" archivos_vacios]
  by (simp add: entorno_ejemplo_def archivos_vacios_def main_def load_json_def)

lemma apagar_bloqueo: "bloqueo_hasta (fst (apagar dev mem a)) = bloqueo_hasta mem"
  by (simp add: apagar_def)

lemma apoyar_bloqueo: "bloqueo_hasta (fst (apoyar dev mem t)) = bloqueo_hasta mem"
  by (simp add: apoyar_def)

lemma motor_decision_bloqueo:
  "bloqueo_hasta (fst (motor_decision env reg temp_ext es_inv en_hor obj dev mem)) = bloqueo_hasta mem"
  by (simp add: motor_decision_def apagar_def apoyar_def split: prod.splits option.splits)

lemma gestion_bloqueo_no_orden:
  "gestion_bloqueo env t dev mem = (mem', evs) \<Longrightarrow> e \<in> set evs \<Longrightarrow> \<not> es_orden e"
  by (auto simp: gestion_bloqueo_def enviar_telegram_def split: if_splits)

lemma gestion_bloqueo_filtro:
  "gestion_bloqueo env t dev mem = (mem', evs) \<Longrightarrow> filter es_orden evs = []"
  by (auto simp: gestion_bloqueo_def enviar_telegram_def split: if_splits)

lemma enviar_telegram_filtro: "filter es_orden (enviar_telegram env a t) = []"
  by (simp add: enviar_telegram_def)

lemma motor_decision_seguridad:
  assumes "temp_ext < UMBRAL_SEGURIDAD_FRIO"
  shows "filter es_orden (fst (snd (motor_decision env reg temp_ext es_inv en_hor obj dev mem)))
           = (if power dev then [DevSet (name dev) Apagar (set_ok dev)] else [])"
  using assms by (simp add: motor_decision_def apagar_def enviar_telegram_filtro)

subsection \<open>Lockout\<close>

text \<open>
  C1, as the code has it. The decision step looks at the memory after the detection
  and the refresh (lines 163 to 171). If that memory has \<open>now < lockout_until\<close>, strictly,
  the device's pass through the loop calls \<open>dev.set\<close> not once, whatever the outdoor
  temperature, the season, the active-hours flag and the stop mode are; no exception is
  raised, and the entry stored for the device is the refreshed memory, untouched by any
  rule.
\<close>

theorem bloqueo_suprime_ordenes:
  assumes "ahora_ts env
             < bloqueo_hasta (fst (gestion_bloqueo env temp_ext dev
                                     (recuperar_memoria estados_previos dev)))"
  shows "(\<forall>e \<in> set (fst (snd (procesar_dispositivo env registro0 temp_ext es_invierno
                                     en_horario estados_previos dev))). \<not> es_orden e)
       \<and> snd (snd (procesar_dispositivo env registro0 temp_ext es_invierno en_horario
                      estados_previos dev)) = None
       \<and> map_of (fst (procesar_dispositivo env registro0 temp_ext es_invierno en_horario
                        estados_previos dev)) (name dev)
           = Some (actualizar_memoria dev (fst (gestion_bloqueo env temp_ext dev
                                                  (recuperar_memoria estados_previos dev))))"
  using assms
  by (auto simp: procesar_dispositivo_def Let_def actualizar_memoria_def update_conv'
           split: prod.splits dest: gestion_bloqueo_no_orden)

theorem bloqueo_suprime_ordenes_witness:
  "ahora_ts (entorno_ejemplo\<lparr>ahora_ts := 50\<rparr>)
     < bloqueo_hasta (fst (gestion_bloqueo (entorno_ejemplo\<lparr>ahora_ts := 50\<rparr>) (- 5) elisa
                             (recuperar_memoria estados_ejemplo elisa)))
   \<and> fst (snd (procesar_dispositivo (entorno_ejemplo\<lparr>ahora_ts := 50\<rparr>) registro_ejemplo (- 5)
                  True True estados_ejemplo elisa))
       = [Log (LogDispositivo ''Elisa'' True 21 21), Log (LogBloqueo ''Elisa'')]"
  using bloqueo_suprime_ordenes[of "entorno_ejemplo\<lparr>ahora_ts := 50\<rparr>" "- 5" elisa estados_ejemplo
          registro_ejemplo True True]
  by (simp add: entorno_ejemplo_def elisa_def estados_ejemplo_def registro_ejemplo_def
        procesar_dispositivo_def gestion_bloqueo_def recuperar_memoria_def cambio_manual_def
        actualizar_memoria_def temp_objetivo_def TEMP_OBJETIVOS_def nombre_salon_def)

text \<open>
  At the instant \<open>now = lockout_until\<close> the test of line 173, \<open>bloqueo_hasta > ahora_ts\<close>,
  is false: with the clock at 100, a lockout that ends at 100 and five degrees below zero,
  the device is switched off by the safety rule.
\<close>

theorem bloqueo_en_el_limite_counterexample:
  "ahora_ts entorno_ejemplo
     \<le> bloqueo_hasta (fst (gestion_bloqueo entorno_ejemplo (- 5) elisa
                             (recuperar_memoria estados_ejemplo elisa)))
   \<and> fst (snd (procesar_dispositivo entorno_ejemplo registro_ejemplo (- 5) True True
                  estados_ejemplo elisa))
       = [Log (LogDispositivo ''Elisa'' True 21 21), DevSet ''Elisa'' Apagar True,
          Telegram (AvisoSeguridad ''Elisa'') (- 5)]"
  by (simp add: entorno_ejemplo_def elisa_def estados_ejemplo_def registro_ejemplo_def
        procesar_dispositivo_def gestion_bloqueo_def recuperar_memoria_def cambio_manual_def
        actualizar_memoria_def temp_objetivo_def TEMP_OBJETIVOS_def nombre_salon_def
        motor_decision_def apagar_def UMBRAL_SEGURIDAD_FRIO_def enviar_telegram_def)

subsection \<open>Safety cutoff\<close>

text \<open>
  C3, as the code has it. Below the safety threshold, for a device that is not locked
  out at the decision step, the only call of \<open>dev.set\<close> in its pass is the power-off,
  and it is made exactly when the device is on; a device that is already off receives no
  command. Season, active hours, stop mode and the stored memory play no part, and the
  comfort rule never switches the device on.
\<close>

theorem seguridad_apaga:
  assumes "temp_ext < UMBRAL_SEGURIDAD_FRIO"
    and "\<not> ahora_ts env
             < bloqueo_hasta (fst (gestion_bloqueo env temp_ext dev
                                     (recuperar_memoria estados_previos dev)))"
  shows "filter es_orden (fst (snd (procesar_dispositivo env registro0 temp_ext es_invierno
                                      en_horario estados_previos dev)))
           = (if power dev then [DevSet (name dev) Apagar (set_ok dev)] else [])"
proof -
  obtain mem1 evs1 where g:
    "gestion_bloqueo env temp_ext dev (recuperar_memoria estados_previos dev) = (mem1, evs1)"
    by (cases "gestion_bloqueo env temp_ext dev (recuperar_memoria estados_previos dev)")
  obtain mem3 evs2 exc where m:
    "motor_decision env registro0 temp_ext es_invierno en_horario (temp_objetivo (name dev)) dev
       (actualizar_memoria dev mem1) = (mem3, evs2, exc)"
    by (cases "motor_decision env registro0 temp_ext es_invierno en_horario
                 (temp_objetivo (name dev)) dev (actualizar_memoria dev mem1)")
  have "filter es_orden evs2 = (if power dev then [DevSet (name dev) Apagar (set_ok dev)] else [])"
    using motor_decision_seguridad[OF assms(1), of env registro0 es_invierno en_horario
            "temp_objetivo (name dev)" dev "actualizar_memoria dev mem1"] m
    by simp
  moreover have "filter es_orden evs1 = []"
    using g by (rule gestion_bloqueo_filtro)
  moreover have "\<not> bloqueo_hasta (actualizar_memoria dev mem1) > ahora_ts env"
    using assms(2) g by (simp add: actualizar_memoria_def)
  ultimately show ?thesis
    using g m by (simp add: procesar_dispositivo_def Let_def)
qed

theorem seguridad_apaga_witness:
  "(- 5 :: real) < UMBRAL_SEGURIDAD_FRIO
   \<and> \<not> ahora_ts (entorno_ejemplo\<lparr>ahora_ts := 200\<rparr>)
          < bloqueo_hasta (fst (gestion_bloqueo (entorno_ejemplo\<lparr>ahora_ts := 200\<rparr>) (- 5) elisa
                                  (recuperar_memoria estados_ejemplo elisa)))
   \<and> filter es_orden (fst (snd (procesar_dispositivo (entorno_ejemplo\<lparr>ahora_ts := 200\<rparr>)
                                   registro_ejemplo (- 5) True True estados_ejemplo elisa)))
       = [DevSet ''Elisa'' Apagar True]"
  using seguridad_apaga[of "- 5" "entorno_ejemplo\<lparr>ahora_ts := 200\<rparr>" elisa estados_ejemplo
          registro_ejemplo True True]
  by (simp add: entorno_ejemplo_def elisa_def estados_ejemplo_def
        gestion_bloqueo_def recuperar_memoria_def cambio_manual_def
        UMBRAL_SEGURIDAD_FRIO_def)

text \<open>
  A device that is off, seen for the first time, five degrees below zero: its pass
  logs the device and nothing else. No command is sent to it.
\<close>

theorem seguridad_ya_apagado_counterexample:
  "(- 5 :: real) < UMBRAL_SEGURIDAD_FRIO
   \<and> \<not> ahora_ts entorno_ejemplo
          < bloqueo_hasta (fst (gestion_bloqueo entorno_ejemplo (- 5) elisa_apagada
                                  (recuperar_memoria [] elisa_apagada)))
   \<and> procesar_dispositivo entorno_ejemplo registro_ejemplo (- 5) True True [] elisa_apagada
       = ([(''Elisa'', \<lparr>mem_power = False, mem_target_temperature = 21, bloqueo_hasta = 0\<rparr>)],
          [Log (LogDispositivo ''Elisa'' False 21 21)], None)"
  by (simp add: entorno_ejemplo_def elisa_apagada_def registro_ejemplo_def
        procesar_dispositivo_def gestion_bloqueo_def recuperar_memoria_def cambio_manual_def
        actualizar_memoria_def temp_objetivo_def TEMP_OBJETIVOS_def nombre_salon_def
        motor_decision_def apagar_def UMBRAL_SEGURIDAD_FRIO_def enviar_telegram_def)

subsection \<open>Comfort rule\<close>

text \<open>
  C6. For a device that is on with its target at the objective, the body of the comfort
  rule does nothing: no call of \<open>dev.set\<close>, no message, the memory as it was. The
  comfort rule is the one evaluated when it is winter, inside the active hours, the stop
  mode is off, and the outdoor temperature is at or below the winter-comfort threshold
  and not below the safety threshold (below it the safety rule is the one evaluated);
  the decision engine then returns the memory unchanged with an empty trace. For a device
  that is not locked out at the decision step, the trace of its whole pass is then the
  device's log line and what the detection step wrote, and nothing from any rule.
\<close>

theorem apoyo_idempotente:
  assumes "power dev" and "target_temperature dev = temp_objetivo_actual"
  shows "apoyar dev mem temp_objetivo_actual = (mem, [], None, None)
       \<and> (\<not> temp_ext < UMBRAL_SEGURIDAD_FRIO \<and> temp_ext \<le> UMBRAL_BUEN_TIEMPO_INVIERNO
            \<and> \<not> stop_mode registro0 \<longrightarrow>
          motor_decision env registro0 temp_ext True True temp_objetivo_actual dev mem
            = (mem, [], None))
       \<and> (\<not> temp_ext < UMBRAL_SEGURIDAD_FRIO \<and> temp_ext \<le> UMBRAL_BUEN_TIEMPO_INVIERNO
            \<and> \<not> stop_mode registro0 \<and> temp_objetivo_actual = temp_objetivo (name dev)
            \<and> \<not> ahora_ts env
                  < bloqueo_hasta (fst (gestion_bloqueo env temp_ext dev
                                          (recuperar_memoria estados_previos dev))) \<longrightarrow>
          fst (snd (procesar_dispositivo env registro0 temp_ext True True estados_previos dev))
            = Log (LogDispositivo (name dev) (power dev) (target_temperature dev)
                     (temp_objetivo (name dev)))
              # snd (gestion_bloqueo env temp_ext dev (recuperar_memoria estados_previos dev)))"
proof -
  have a: "apoyar dev mem' temp_objetivo_actual = (mem', [], None, None)" for mem'
    using assms by (simp add: apoyar_def)
  have b: "motor_decision env registro0 temp_ext True True temp_objetivo_actual dev mem'
             = (mem', [], None)"
    if "\<not> temp_ext < UMBRAL_SEGURIDAD_FRIO" "temp_ext \<le> UMBRAL_BUEN_TIEMPO_INVIERNO"
       "\<not> stop_mode registro0" for mem'
    using that a by (simp add: motor_decision_def)
  have c: "fst (snd (procesar_dispositivo env registro0 temp_ext True True estados_previos dev))
            = Log (LogDispositivo (name dev) (power dev) (target_temperature dev)
                     (temp_objetivo (name dev)))
              # snd (gestion_bloqueo env temp_ext dev (recuperar_memoria estados_previos dev))"
    if "\<not> temp_ext < UMBRAL_SEGURIDAD_FRIO" "temp_ext \<le> UMBRAL_BUEN_TIEMPO_INVIERNO"
       "\<not> stop_mode registro0" "temp_objetivo_actual = temp_objetivo (name dev)"
       "\<not> ahora_ts env
            < bloqueo_hasta (fst (gestion_bloqueo env temp_ext dev
                                    (recuperar_memoria estados_previos dev)))"
  proof -
    obtain mem1 evs1 where g:
      "gestion_bloqueo env temp_ext dev (recuperar_memoria estados_previos dev) = (mem1, evs1)"
      by (cases "gestion_bloqueo env temp_ext dev (recuperar_memoria estados_previos dev)")
    have "\<not> bloqueo_hasta (actualizar_memoria dev mem1) > ahora_ts env"
      using that(5) g by (simp add: actualizar_memoria_def)
    then show ?thesis
      using g that(4) b[OF that(1,2,3)] by (simp add: procesar_dispositivo_def Let_def)
  qed
  show ?thesis using a b c by blast
qed

theorem apoyo_idempotente_witness:
  "power elisa \<and> target_temperature elisa = temp_objetivo ''Elisa''
   \<and> \<not> (10::real) < UMBRAL_SEGURIDAD_FRIO \<and> (10::real) \<le> UMBRAL_BUEN_TIEMPO_INVIERNO
   \<and> \<not> stop_mode registro_ejemplo
   \<and> \<not> ahora_ts entorno_ejemplo
          < bloqueo_hasta (fst (gestion_bloqueo entorno_ejemplo 10 elisa
                                  (recuperar_memoria estados_ejemplo elisa)))
   \<and> motor_decision entorno_ejemplo registro_ejemplo 10 True True (temp_objetivo ''Elisa'') elisa
        \<lparr>mem_power = True, mem_target_temperature = 21, bloqueo_hasta = 0\<rparr>
       = (\<lparr>mem_power = True, mem_target_temperature = 21, bloqueo_hasta = 0\<rparr>, [], None)
   \<and> fst (snd (procesar_dispositivo entorno_ejemplo registro_ejemplo 10 True True
                  estados_ejemplo elisa))
       = [Log (LogDispositivo ''Elisa'' True 21 21)]"
proof -
  have o: "temp_objetivo ''Elisa'' = 21"
    by (simp add: temp_objetivo_def TEMP_OBJETIVOS_def nombre_salon_def)
  have h: "power elisa" "target_temperature elisa = temp_objetivo ''Elisa''"
    using o by (simp_all add: elisa_def)
  have g: "gestion_bloqueo entorno_ejemplo 10 elisa (recuperar_memoria estados_ejemplo elisa)
             = (\<lparr>mem_power = True, mem_target_temperature = 21, bloqueo_hasta = 100\<rparr>, [])"
    by (simp add: gestion_bloqueo_def recuperar_memoria_def cambio_manual_def elisa_def
          estados_ejemplo_def)
  have c: "\<not> (10::real) < UMBRAL_SEGURIDAD_FRIO \<and> (10::real) \<le> UMBRAL_BUEN_TIEMPO_INVIERNO
           \<and> \<not> stop_mode registro_ejemplo
           \<and> \<not> ahora_ts entorno_ejemplo
                  < bloqueo_hasta (fst (gestion_bloqueo entorno_ejemplo 10 elisa
                                          (recuperar_memoria estados_ejemplo elisa)))"
    using g by (simp add: UMBRAL_SEGURIDAD_FRIO_def UMBRAL_BUEN_TIEMPO_INVIERNO_def
                  registro_ejemplo_def entorno_ejemplo_def)
  have n: "name elisa = ''Elisa''" by (simp add: elisa_def)
  show ?thesis
    using apoyo_idempotente[OF h, of
            "\<lparr>mem_power = True, mem_target_temperature = 21, bloqueo_hasta = 0\<rparr>"
            10 registro_ejemplo entorno_ejemplo estados_ejemplo] h c g o n
    by (simp add: elisa_def)
qed

subsection \<open>A device seen for the first time\<close>

text \<open>
  C10. For a device with no entry in the store, the memory is built from the observed
  power and target with lockout 0; the detection finds no difference, so it arms
  nothing and reports nothing; after the pass the device's entry still has lockout 0;
  and, the clock not being before the epoch, the pass is the decision engine run on that
  memory, after the log line of the device.
\<close>

theorem primer_ciclo_sin_bloqueo:
  assumes "map_of estados_previos (name dev) = None"
  shows "recuperar_memoria estados_previos dev
           = \<lparr>mem_power = power dev, mem_target_temperature = target_temperature dev,
              bloqueo_hasta = 0\<rparr>
       \<and> gestion_bloqueo env temp_ext dev (recuperar_memoria estados_previos dev)
           = (recuperar_memoria estados_previos dev, [])
       \<and> (\<exists>mem. map_of (fst (procesar_dispositivo env registro0 temp_ext es_invierno en_horario
                                 estados_previos dev)) (name dev) = Some mem
                \<and> bloqueo_hasta mem = 0)
       \<and> (0 \<le> ahora_ts env \<longrightarrow>
            procesar_dispositivo env registro0 temp_ext es_invierno en_horario estados_previos dev
              = (case motor_decision env registro0 temp_ext es_invierno en_horario
                        (temp_objetivo (name dev)) dev (recuperar_memoria estados_previos dev) of
                   (mem3, evs2, exc) \<Rightarrow>
                     (AList.update (name dev) mem3
                        (AList.update (name dev) (recuperar_memoria estados_previos dev)
                           estados_previos),
                      Log (LogDispositivo (name dev) (power dev) (target_temperature dev)
                             (temp_objetivo (name dev))) # evs2,
                      exc)))"
proof -
  let ?mem = "\<lparr>mem_power = power dev, mem_target_temperature = target_temperature dev,
               bloqueo_hasta = 0\<rparr>"
  have r: "recuperar_memoria estados_previos dev = ?mem"
    using assms by (simp add: recuperar_memoria_def)
  have g: "gestion_bloqueo env temp_ext dev ?mem = (?mem, [])"
    by (simp add: gestion_bloqueo_def cambio_manual_def)
  have a: "actualizar_memoria dev ?mem = ?mem"
    by (simp add: actualizar_memoria_def)
  have b: "bloqueo_hasta (fst (motor_decision env registro0 temp_ext es_invierno en_horario
                                 (temp_objetivo (name dev)) dev ?mem)) = 0"
    by (simp add: motor_decision_bloqueo)
  have "\<exists>mem. map_of (fst (procesar_dispositivo env registro0 temp_ext es_invierno en_horario
                             estados_previos dev)) (name dev) = Some mem
              \<and> bloqueo_hasta mem = 0"
    using b by (auto simp: procesar_dispositivo_def Let_def r g a update_conv' split: prod.splits)
  moreover have "0 \<le> ahora_ts env \<longrightarrow>
            procesar_dispositivo env registro0 temp_ext es_invierno en_horario estados_previos dev
              = (case motor_decision env registro0 temp_ext es_invierno en_horario
                        (temp_objetivo (name dev)) dev ?mem of
                   (mem3, evs2, exc) \<Rightarrow>
                     (AList.update (name dev) mem3 (AList.update (name dev) ?mem estados_previos),
                      Log (LogDispositivo (name dev) (power dev) (target_temperature dev)
                             (temp_objetivo (name dev))) # evs2,
                      exc))"
    by (auto simp: procesar_dispositivo_def Let_def r g a split: prod.splits)
  ultimately show ?thesis
    using r g by simp
qed

theorem primer_ciclo_sin_bloqueo_witness:
  "map_of [] (name elisa) = (None :: memoria option)
   \<and> 0 \<le> ahora_ts entorno_ejemplo
   \<and> procesar_dispositivo entorno_ejemplo registro_ejemplo (- 5) True True [] elisa
       = ([(''Elisa'', \<lparr>mem_power = False, mem_target_temperature = 21, bloqueo_hasta = 0\<rparr>)],
          [Log (LogDispositivo ''Elisa'' True 21 21), DevSet ''Elisa'' Apagar True,
           Telegram (AvisoSeguridad ''Elisa'') (- 5)], None)"
  using primer_ciclo_sin_bloqueo[of "[]" elisa entorno_ejemplo "- 5" registro_ejemplo True True]
  by (simp add: entorno_ejemplo_def elisa_def registro_ejemplo_def
        temp_objetivo_def TEMP_OBJETIVOS_def nombre_salon_def
        motor_decision_def apagar_def UMBRAL_SEGURIDAD_FRIO_def enviar_telegram_def)

subsection \<open>Substring test\<close>

lemma empieza_con_iff: "empieza_con n s \<longleftrightarrow> (\<exists>suf. s = n @ suf)"
  by (induction n s rule: empieza_con.induct) auto

lemma str_in_iff: "str_in n s \<longleftrightarrow> (\<exists>pre suf. s = pre @ n @ suf)"
proof (induction s)
  case Nil
  then show ?case by (auto simp: empieza_con_iff)
next
  case (Cons d ds)
  show ?case
  proof
    assume "str_in n (d # ds)"
    then consider "empieza_con n (d # ds)" | "str_in n ds" by auto
    then show "\<exists>pre suf. d # ds = pre @ n @ suf"
    proof cases
      case 1
      then obtain suf where "d # ds = n @ suf" by (auto simp: empieza_con_iff)
      then have "d # ds = [] @ n @ suf" by simp
      then show ?thesis by blast
    next
      case 2
      then obtain pre suf where "ds = pre @ n @ suf" using Cons.IH by auto
      then have "d # ds = (d # pre) @ n @ suf" by simp
      then show ?thesis by blast
    qed
  next
    assume "\<exists>pre suf. d # ds = pre @ n @ suf"
    then obtain pre suf where e: "d # ds = pre @ n @ suf" by blast
    show "str_in n (d # ds)"
    proof (cases pre)
      case Nil
      with e have "empieza_con n (d # ds)" by (auto simp: empieza_con_iff)
      then show ?thesis by simp
    next
      case (Cons p ps)
      with e have "ds = ps @ n @ suf" by simp
      then have "str_in n ds" using Cons.IH by blast
      then show ?thesis by simp
    qed
  qed
qed

lemma str_in_subcadena: "str_in n s \<longleftrightarrow> subcadena n s"
  by (simp add: str_in_iff subcadena_def)

subsection \<open>Inbound directives\<close>

text \<open>
  C9. A directive is recognised by containment in the lower-cased text, the text being
  \<open>pre @ directive @ suf\<close> for some \<open>pre\<close> and \<open>suf\<close>, not by equality. One message
  runs every action whose directive it contains, in the order reset, stop, start, info:
  the cursor takes the message's id; a reset zeroes the lockouts; the stop mode is false
  if the text contains \<open>/start\<close> (even when it also contains \<open>/stop\<close>, since start
  is applied after stop), true if it contains only \<open>/stop\<close>, unchanged otherwise; the
  replies are posted in that same order, the status report showing the stop mode the
  message leaves.
\<close>

theorem directivas_por_subcadena:
  assumes "procesar_update env temp_ext devices en_horario result (registro0, estados0, evs0)
             = (registro1, estados1, evs1)"
  shows "last_telegram_update_id registro1 = update_id result
       \<and> estados1 = (if subcadena ''/reset'' (texto result) then reset_bloqueos estados0
                      else estados0)
       \<and> stop_mode registro1
           = (if subcadena ''/start'' (texto result) then False
              else if subcadena ''/stop'' (texto result) then True
              else stop_mode registro0)
       \<and> evs1 = evs0
           @ (if subcadena ''/reset'' (texto result)
              then enviar_telegram env AvisoReset temp_ext else [])
           @ (if subcadena ''/stop'' (texto result)
              then enviar_telegram env AvisoStop temp_ext else [])
           @ (if subcadena ''/start'' (texto result)
              then enviar_telegram env AvisoStart temp_ext else [])
           @ (if subcadena ''/info'' (texto result)
              then enviar_telegram env
                     (AvisoInfo en_horario (stop_mode registro1)
                        (map (\<lambda>d. (name d, power d, target_temperature d)) devices))
                     temp_ext
              else [])"
  using assms
  by (auto simp: procesar_update_def Let_def str_in_subcadena[symmetric]
           split: if_splits)

theorem directivas_por_subcadena_witness:
  "procesar_update entorno_ejemplo (- 5) [] True mensaje_stop_start
      (registro_ejemplo, estados_ejemplo, [])
     = (\<lparr>last_telegram_update_id = 7, stop_mode = False\<rparr>, estados_ejemplo,
        [Telegram AvisoStop (- 5), Telegram AvisoStart (- 5)])
   \<and> subcadena ''/stop'' (texto mensaje_stop_start)
   \<and> subcadena ''/start'' (texto mensaje_stop_start)
   \<and> \<not> subcadena ''/reset'' (texto mensaje_stop_start)
   \<and> stop_mode \<lparr>last_telegram_update_id = 7, stop_mode = False\<rparr> = False"
proof -
  have t: "texto mensaje_stop_start = ''por favor /stop y luego /start''"
    unfolding texto_def mensaje_stop_start_def by code_simp
  have s1: "str_in ''/stop'' ''por favor /stop y luego /start''" by code_simp
  have s2: "str_in ''/start'' ''por favor /stop y luego /start''" by code_simp
  have s3: "\<not> str_in ''/reset'' ''por favor /stop y luego /start''" by code_simp
  have s4: "\<not> str_in ''/info'' ''por favor /stop y luego /start''" by code_simp
  have u: "update_id mensaje_stop_start = 7" by (simp add: mensaje_stop_start_def)
  have h: "procesar_update entorno_ejemplo (- 5) [] True mensaje_stop_start
      (registro_ejemplo, estados_ejemplo, [])
     = (\<lparr>last_telegram_update_id = 7, stop_mode = False\<rparr>, estados_ejemplo,
        [Telegram AvisoStop (- 5), Telegram AvisoStart (- 5)])"
    using t s1 s2 s3 s4 u
    by (simp add: procesar_update_def Let_def enviar_telegram_def entorno_ejemplo_def
          registro_ejemplo_def)
  show ?thesis
    using directivas_por_subcadena[OF h] h t s1 s2 s3
    by (simp add: str_in_subcadena)
qed

subsection \<open>Reset\<close>

lemma reset_bloqueos_sin: "sin_bloqueos (reset_bloqueos e)"
  by (induction e) (auto simp: sin_bloqueos_def reset_bloqueos_def)

lemma reset_bloqueos_claves: "map fst (reset_bloqueos e) = map fst e"
  by (induction e) (auto simp: reset_bloqueos_def)

lemma procesar_update_estados:
  "fst (snd (procesar_update env t devs h u st))
     = (if str_in ''/reset'' (texto u) then reset_bloqueos (fst (snd st)) else fst (snd st))"
  by (cases st) (simp add: procesar_update_def Let_def split: prod.splits)

lemma foldl_update_mantiene:
  "sin_bloqueos (fst (snd st)) \<Longrightarrow>
   sin_bloqueos (fst (snd (foldl (\<lambda>st r. procesar_update env t devs h r st) st rs)))"
  by (induction rs arbitrary: st) (simp_all add: procesar_update_estados reset_bloqueos_sin)

lemma foldl_update_reset:
  "u \<in> set rs \<Longrightarrow> str_in ''/reset'' (texto u) \<Longrightarrow>
   sin_bloqueos (fst (snd (foldl (\<lambda>st r. procesar_update env t devs h r st) st rs)))"
proof (induction rs arbitrary: st)
  case Nil
  then show ?case by simp
next
  case (Cons r rs)
  show ?case
  proof (cases "u = r")
    case True
    then have "sin_bloqueos (fst (snd (procesar_update env t devs h r st)))"
      using Cons.prems(2) by (simp add: procesar_update_estados reset_bloqueos_sin)
    then show ?thesis by (simp add: foldl_update_mantiene)
  next
    case False
    then have "u \<in> set rs" using Cons.prems(1) by simp
    then show ?thesis using Cons.IH Cons.prems(2) by simp
  qed
qed

lemma foldl_update_claves:
  "map fst (fst (snd (foldl (\<lambda>st r. procesar_update env t devs h r st) st rs)))
     = map fst (fst (snd st))"
  by (induction rs arbitrary: st) (simp_all add: procesar_update_estados reset_bloqueos_claves)

lemma sin_bloqueos_map_of:
  "sin_bloqueos e \<Longrightarrow> map_of e n = Some mem \<Longrightarrow> bloqueo_hasta mem = 0"
  by (auto simp: sin_bloqueos_def list_all_iff dest: map_of_SomeD)

lemma paso_sin_bloqueo:
  assumes "map_of estados_previos (name dev) = Some mem" and "\<not> cambio_manual mem dev"
    and "bloqueo_hasta mem \<le> ahora_ts env"
  shows "fst (snd (procesar_dispositivo env registro0 temp_ext es_invierno en_horario
                     estados_previos dev))
           = Log (LogDispositivo (name dev) (power dev) (target_temperature dev)
                    (temp_objetivo (name dev)))
             # fst (snd (motor_decision env registro0 temp_ext es_invierno en_horario
                           (temp_objetivo (name dev)) dev mem))"
proof -
  have a: "actualizar_memoria dev mem = mem"
    using assms(2) by (simp add: actualizar_memoria_def cambio_manual_def)
  show ?thesis
    using assms
    by (simp add: procesar_dispositivo_def Let_def recuperar_memoria_def gestion_bloqueo_def a
          split: prod.splits)
qed

text \<open>
  C8. When the poll succeeds and one of the messages contains \<open>/reset\<close>, every entry
  of the memory store leaves \<open>check_telegram_commands\<close> with \<open>bloqueo_hasta = 0\<close>,
  whatever messages follow it, and the set and order of keys is unchanged. From then on
  a device whose entry agrees with what it shows (a manual change detected earlier left
  the memory refreshed to it) is no longer skipped: with a clock not before the epoch its
  pass through the loop is the log line followed by the decision engine's own trace.
\<close>

theorem reset_pone_bloqueos_a_cero:
  assumes "bot_token env"
    and "get_updates env (last_telegram_update_id registro0 + 1) = PollRespuesta 200 results"
    and "result \<in> set results" and "subcadena ''/reset'' (texto result)"
    and "check_telegram_commands env registro0 estados0 temp_ext devices en_horario
           = (registro1, estados1, evs)"
  shows "map fst estados1 = map fst estados0
       \<and> (\<forall>n mem. map_of estados1 n = Some mem \<longrightarrow> bloqueo_hasta mem = 0)
       \<and> (\<forall>dev mem es_invierno. map_of estados1 (name dev) = Some mem
              \<and> \<not> cambio_manual mem dev \<and> 0 \<le> ahora_ts env \<longrightarrow>
            fst (snd (procesar_dispositivo env registro1 temp_ext es_invierno en_horario
                        estados1 dev))
              = Log (LogDispositivo (name dev) (power dev) (target_temperature dev)
                       (temp_objetivo (name dev)))
                # fst (snd (motor_decision env registro1 temp_ext es_invierno en_horario
                              (temp_objetivo (name dev)) dev mem)))"
proof -
  have e: "estados1 = fst (snd (foldl (\<lambda>st r. procesar_update env temp_ext devices en_horario r st)
                                   (registro0, estados0, []) results))"
    using assms(1,2,5) by (simp add: check_telegram_commands_def)
  have s: "sin_bloqueos estados1"
    unfolding e using assms(3,4) by (intro foldl_update_reset) (simp_all add: str_in_subcadena)
  have k: "map fst estados1 = map fst estados0"
    unfolding e by (simp add: foldl_update_claves)
  have z: "\<And>n mem. map_of estados1 n = Some mem \<Longrightarrow> bloqueo_hasta mem = 0"
    using s by (rule sin_bloqueos_map_of)
  show ?thesis
    using k z by (auto intro!: paso_sin_bloqueo)
qed

theorem reset_pone_bloqueos_a_cero_witness:
  "bot_token entorno_reset
   \<and> get_updates entorno_reset (last_telegram_update_id registro_ejemplo + 1)
       = PollRespuesta 200 [mensaje_reset]
   \<and> mensaje_reset \<in> set [mensaje_reset]
   \<and> subcadena ''/reset'' (texto mensaje_reset)
   \<and> check_telegram_commands entorno_reset registro_ejemplo estados_ejemplo (- 5) [elisa] True
       = (\<lparr>last_telegram_update_id = 8, stop_mode = False\<rparr>,
          [(''Elisa'', \<lparr>mem_power = True, mem_target_temperature = 21, bloqueo_hasta = 0\<rparr>)],
          [Telegram AvisoReset (- 5)])
   \<and> fst (snd (procesar_dispositivo entorno_reset \<lparr>last_telegram_update_id = 8, stop_mode = False\<rparr>
                  (- 5) True True
                  [(''Elisa'', \<lparr>mem_power = True, mem_target_temperature = 21, bloqueo_hasta = 0\<rparr>)]
                  elisa))
       = [Log (LogDispositivo ''Elisa'' True 21 21), DevSet ''Elisa'' Apagar True,
          Telegram (AvisoSeguridad ''Elisa'') (- 5)]"
proof -
  have t: "texto mensaje_reset = ''haz /reset ya''"
    unfolding texto_def mensaje_reset_def by code_simp
  have s1: "str_in ''/reset'' ''haz /reset ya''" by code_simp
  have s2: "\<not> str_in ''/stop'' ''haz /reset ya''" by code_simp
  have s3: "\<not> str_in ''/start'' ''haz /reset ya''" by code_simp
  have s4: "\<not> str_in ''/info'' ''haz /reset ya''" by code_simp
  have h1: "bot_token entorno_reset"
    by (simp add: entorno_reset_def entorno_ejemplo_def)
  have h2: "get_updates entorno_reset (last_telegram_update_id registro_ejemplo + 1)
              = PollRespuesta 200 [mensaje_reset]"
    by (simp add: entorno_reset_def entorno_ejemplo_def)
  have h3: "mensaje_reset \<in> set [mensaje_reset]" by simp
  have h4: "subcadena ''/reset'' (texto mensaje_reset)"
    using s1 t by (simp add: str_in_subcadena)
  have u: "update_id mensaje_reset = 8" by (simp add: mensaje_reset_def)
  have h5: "check_telegram_commands entorno_reset registro_ejemplo estados_ejemplo (- 5) [elisa] True
       = (\<lparr>last_telegram_update_id = 8, stop_mode = False\<rparr>,
          [(''Elisa'', \<lparr>mem_power = True, mem_target_temperature = 21, bloqueo_hasta = 0\<rparr>)],
          [Telegram AvisoReset (- 5)])"
    using t s1 s2 s3 s4 u
    by (simp add: check_telegram_commands_def procesar_update_def Let_def
          enviar_telegram_def entorno_reset_def entorno_ejemplo_def registro_ejemplo_def
          estados_ejemplo_def reset_bloqueos_def)
  have m: "fst (snd (motor_decision entorno_reset \<lparr>last_telegram_update_id = 8, stop_mode = False\<rparr>
                  (- 5) True True (temp_objetivo (name elisa)) elisa
                  \<lparr>mem_power = True, mem_target_temperature = 21, bloqueo_hasta = 0\<rparr>))
           = [DevSet ''Elisa'' Apagar True, Telegram (AvisoSeguridad ''Elisa'') (- 5)]"
    by (simp add: motor_decision_def apagar_def UMBRAL_SEGURIDAD_FRIO_def enviar_telegram_def
          entorno_reset_def entorno_ejemplo_def elisa_def)
  have c: "map_of [(''Elisa'', \<lparr>mem_power = True, mem_target_temperature = 21, bloqueo_hasta = 0\<rparr>)]
             (name elisa)
             = Some \<lparr>mem_power = True, mem_target_temperature = 21, bloqueo_hasta = 0\<rparr>
           \<and> \<not> cambio_manual \<lparr>mem_power = True, mem_target_temperature = 21, bloqueo_hasta = 0\<rparr>
                 elisa
           \<and> 0 \<le> ahora_ts entorno_reset"
    by (simp add: elisa_def cambio_manual_def entorno_reset_def entorno_ejemplo_def)
  have p: "fst (snd (procesar_dispositivo entorno_reset
                  \<lparr>last_telegram_update_id = 8, stop_mode = False\<rparr> (- 5) True True
                  [(''Elisa'', \<lparr>mem_power = True, mem_target_temperature = 21, bloqueo_hasta = 0\<rparr>)]
                  elisa))
           = Log (LogDispositivo (name elisa) (power elisa) (target_temperature elisa)
                    (temp_objetivo (name elisa)))
             # fst (snd (motor_decision entorno_reset
                  \<lparr>last_telegram_update_id = 8, stop_mode = False\<rparr> (- 5) True True
                  (temp_objetivo (name elisa)) elisa
                  \<lparr>mem_power = True, mem_target_temperature = 21, bloqueo_hasta = 0\<rparr>))"
    using reset_pone_bloqueos_a_cero[OF h1 h2 h3 h4 h5, THEN conjunct2, THEN conjunct2,
            rule_format, OF c] .
  have o: "temp_objetivo (name elisa) = 21"
    by (simp add: elisa_def temp_objetivo_def TEMP_OBJETIVOS_def nombre_salon_def)
  show ?thesis
    using h1 h2 h4 h5 p m o by (simp add: elisa_def)
qed

subsection \<open>Edge-triggered detection\<close>

lemma deteccion_sin_cambio:
  "\<not> cambio_manual (fst (deteccion env temp_ext dev mem)) dev"
  by (simp add: deteccion_def actualizar_memoria_def cambio_manual_def split: prod.splits)

lemma deteccion_estable:
  "\<not> cambio_manual mem dev \<Longrightarrow> deteccion env temp_ext dev mem = (mem, [])"
  by (simp add: deteccion_def gestion_bloqueo_def actualizar_memoria_def cambio_manual_def)

text \<open>
  C5, as the code has it. \<open>deteccion\<close> is the detection and refresh of one cycle.
  Run twice on the same observed device, the second run, on the memory the first one
  left, changes nothing and reports nothing, whatever the two clocks are. Over the two
  runs the lockout is armed once if the first run saw a difference from the original
  memory with \<open>now > lockout_until\<close>, and not at all otherwise; the lockout after both
  runs is \<open>now + 3600\<close> of the first cycle in the first case and the original one in
  the other. The memory the first cycle stores for the device is the one \<open>deteccion\<close>
  returns whenever a difference was seen and \<open>now\<close> is not exactly the old
  \<open>lockout_until\<close> (the decision engine is then skipped).
\<close>

theorem deteccion_por_flanco:
  "deteccion env2 temp2 dev (fst (deteccion env1 temp1 dev mem0))
     = (fst (deteccion env1 temp1 dev mem0), [])
   \<and> length (filter es_manual (snd (deteccion env1 temp1 dev mem0)
                                 @ snd (deteccion env2 temp2 dev (fst (deteccion env1 temp1 dev mem0)))))
       = (if cambio_manual mem0 dev \<and> ahora_ts env1 > bloqueo_hasta mem0 then 1 else 0)
   \<and> bloqueo_hasta (fst (deteccion env2 temp2 dev (fst (deteccion env1 temp1 dev mem0))))
       = (if cambio_manual mem0 dev \<and> ahora_ts env1 > bloqueo_hasta mem0
          then ahora_ts env1 + DURACION_BLOQUEO_MANUAL else bloqueo_hasta mem0)
   \<and> (map_of estados_previos (name dev) = Some mem0 \<and> cambio_manual mem0 dev
        \<and> ahora_ts env1 \<noteq> bloqueo_hasta mem0 \<longrightarrow>
      map_of (fst (procesar_dispositivo env1 registro0 temp1 es_invierno en_horario
                     estados_previos dev)) (name dev)
        = Some (fst (deteccion env1 temp1 dev mem0)))"
proof -
  have a: "deteccion env2 temp2 dev (fst (deteccion env1 temp1 dev mem0))
             = (fst (deteccion env1 temp1 dev mem0), [])"
    by (rule deteccion_estable) (rule deteccion_sin_cambio)
  have b: "length (filter es_manual (snd (deteccion env1 temp1 dev mem0)))
             = (if cambio_manual mem0 dev \<and> ahora_ts env1 > bloqueo_hasta mem0 then 1 else 0)"
    by (simp add: deteccion_def gestion_bloqueo_def enviar_telegram_def)
  have c: "bloqueo_hasta (fst (deteccion env1 temp1 dev mem0))
             = (if cambio_manual mem0 dev \<and> ahora_ts env1 > bloqueo_hasta mem0
                then ahora_ts env1 + DURACION_BLOQUEO_MANUAL else bloqueo_hasta mem0)"
    by (simp add: deteccion_def gestion_bloqueo_def actualizar_memoria_def)
  have d: "map_of estados_previos (name dev) = Some mem0 \<and> cambio_manual mem0 dev
        \<and> ahora_ts env1 \<noteq> bloqueo_hasta mem0 \<longrightarrow>
      map_of (fst (procesar_dispositivo env1 registro0 temp1 es_invierno en_horario
                     estados_previos dev)) (name dev)
        = Some (fst (deteccion env1 temp1 dev mem0))"
    by (auto simp: procesar_dispositivo_def Let_def deteccion_def gestion_bloqueo_def
          recuperar_memoria_def actualizar_memoria_def update_conv' DURACION_BLOQUEO_MANUAL_def
          split: prod.splits)
  show ?thesis using a b c d by simp
qed

theorem deteccion_por_flanco_witness:
  "map_of [(''Elisa'', memoria_apagada)] (name elisa) = Some memoria_apagada
   \<and> cambio_manual memoria_apagada elisa
   \<and> ahora_ts (entorno_ejemplo\<lparr>ahora_ts := 200\<rparr>) \<noteq> bloqueo_hasta memoria_apagada
   \<and> deteccion (entorno_ejemplo\<lparr>ahora_ts := 200\<rparr>) (- 5) elisa memoria_apagada
       = (\<lparr>mem_power = True, mem_target_temperature = 21, bloqueo_hasta = 3800\<rparr>,
          [Log (LogManual ''Elisa''), Telegram (AvisoManual ''Elisa'' 21) (- 5)])
   \<and> deteccion (entorno_ejemplo\<lparr>ahora_ts := 500\<rparr>) (- 5) elisa
        \<lparr>mem_power = True, mem_target_temperature = 21, bloqueo_hasta = 3800\<rparr>
       = (\<lparr>mem_power = True, mem_target_temperature = 21, bloqueo_hasta = 3800\<rparr>, [])
   \<and> map_of (fst (procesar_dispositivo (entorno_ejemplo\<lparr>ahora_ts := 200\<rparr>) registro_ejemplo (- 5)
                    True True [(''Elisa'', memoria_apagada)] elisa)) (name elisa)
       = Some \<lparr>mem_power = True, mem_target_temperature = 21, bloqueo_hasta = 3800\<rparr>"
proof -
  have d1: "deteccion (entorno_ejemplo\<lparr>ahora_ts := 200\<rparr>) (- 5) elisa memoria_apagada
       = (\<lparr>mem_power = True, mem_target_temperature = 21, bloqueo_hasta = 3800\<rparr>,
          [Log (LogManual ''Elisa''), Telegram (AvisoManual ''Elisa'' 21) (- 5)])"
    by (simp add: deteccion_def gestion_bloqueo_def actualizar_memoria_def cambio_manual_def
          enviar_telegram_def entorno_ejemplo_def elisa_def memoria_apagada_def
          DURACION_BLOQUEO_MANUAL_def)
  have h: "map_of [(''Elisa'', memoria_apagada)] (name elisa) = Some memoria_apagada
     \<and> cambio_manual memoria_apagada elisa
     \<and> ahora_ts (entorno_ejemplo\<lparr>ahora_ts := 200\<rparr>) \<noteq> bloqueo_hasta memoria_apagada"
    by (simp add: elisa_def memoria_apagada_def cambio_manual_def entorno_ejemplo_def)
  show ?thesis
    using deteccion_por_flanco[of "entorno_ejemplo\<lparr>ahora_ts := 500\<rparr>" "- 5" elisa
            "entorno_ejemplo\<lparr>ahora_ts := 200\<rparr>" "- 5" memoria_apagada
            "[(''Elisa'', memoria_apagada)]" registro_ejemplo True True] d1 h
    by simp
qed

text \<open>
  A device switched on by hand while an older lockout (until 100) is still running: the
  cycles at 50 and at 60 both find it differing from the original memory, and neither
  arms a lockout.
\<close>

theorem deteccion_dentro_del_bloqueo_counterexample:
  "cambio_manual memoria_apagada elisa
   \<and> deteccion (entorno_ejemplo\<lparr>ahora_ts := 50\<rparr>) (- 5) elisa memoria_apagada
       = (\<lparr>mem_power = True, mem_target_temperature = 21, bloqueo_hasta = 100\<rparr>, [])
   \<and> deteccion (entorno_ejemplo\<lparr>ahora_ts := 60\<rparr>) (- 5) elisa
        \<lparr>mem_power = True, mem_target_temperature = 21, bloqueo_hasta = 100\<rparr>
       = (\<lparr>mem_power = True, mem_target_temperature = 21, bloqueo_hasta = 100\<rparr>, [])"
  by (simp add: deteccion_def gestion_bloqueo_def actualizar_memoria_def cambio_manual_def
        entorno_ejemplo_def elisa_def memoria_apagada_def)

subsection \<open>A failing \<open>dev.set\<close>\<close>

lemma enviar_telegram_eventos:
  "e \<in> set (enviar_telegram env a t) \<Longrightarrow> e = Telegram a t"
  by (auto simp: enviar_telegram_def split: if_splits)

lemma gestion_bloqueo_traza:
  "gestion_bloqueo env t dev mem = (mem', evs) \<Longrightarrow> e \<in> set evs
   \<Longrightarrow> \<not> es_escritura e \<and> \<not> es_fallo e"
  by (auto simp: gestion_bloqueo_def enviar_telegram_def split: if_splits)

lemma motor_decision_traza:
  "motor_decision env reg t es_inv en_hor obj dev mem = (mem', evs, exc)
   \<Longrightarrow> traza_coherente evs exc"
  by (auto simp: motor_decision_def apagar_def apoyar_def traza_coherente_def enviar_telegram_def
           split: if_splits)

lemma traza_coherente_append:
  assumes "list_all (\<lambda>e. \<not> es_escritura e \<and> \<not> es_fallo e) evs1" and "traza_coherente evs2 exc"
  shows "traza_coherente (evs1 @ evs2) exc"
proof (cases exc)
  case None
  then show ?thesis using assms by (auto simp: traza_coherente_def list_all_iff)
next
  case (Some x)
  then have ne: "evs2 \<noteq> []" using assms(2) by (simp add: traza_coherente_def)
  then have "butlast (evs1 @ evs2) = evs1 @ butlast evs2" "last (evs1 @ evs2) = last evs2"
    by (simp_all add: butlast_append)
  then show ?thesis using assms Some ne by (auto simp: traza_coherente_def list_all_iff)
qed

lemma procesar_dispositivo_traza:
  assumes "procesar_dispositivo env reg t es_inv en_hor est dev = (est', evs, exc)"
  shows "traza_coherente evs exc"
proof -
  obtain mem1 evs1 where g:
    "gestion_bloqueo env t dev (recuperar_memoria est dev) = (mem1, evs1)"
    by (cases "gestion_bloqueo env t dev (recuperar_memoria est dev)")
  have p: "list_all (\<lambda>e. \<not> es_escritura e \<and> \<not> es_fallo e)
             (Log (LogDispositivo (name dev) (power dev) (target_temperature dev)
                     (temp_objetivo (name dev))) # evs1)"
    using gestion_bloqueo_traza[OF g] by (simp add: list_all_iff)
  show ?thesis
  proof (cases "bloqueo_hasta (actualizar_memoria dev mem1) > ahora_ts env")
    case True
    then have "evs = (Log (LogDispositivo (name dev) (power dev) (target_temperature dev)
                     (temp_objetivo (name dev))) # evs1) @ [Log (LogBloqueo (name dev))]"
      and "exc = None"
      using assms g by (simp_all add: procesar_dispositivo_def Let_def)
    moreover have "traza_coherente [Log (LogBloqueo (name dev))] None"
      by (simp add: traza_coherente_def)
    ultimately show ?thesis using traza_coherente_append[OF p] by simp
  next
    case False
    obtain mem3 evs2 exc2 where m:
      "motor_decision env reg t es_inv en_hor (temp_objetivo (name dev)) dev
         (actualizar_memoria dev mem1) = (mem3, evs2, exc2)"
      by (cases "motor_decision env reg t es_inv en_hor (temp_objetivo (name dev)) dev
                   (actualizar_memoria dev mem1)")
    have "evs = (Log (LogDispositivo (name dev) (power dev) (target_temperature dev)
                     (temp_objetivo (name dev))) # evs1) @ evs2" and "exc = exc2"
      using assms g m False by (simp_all add: procesar_dispositivo_def Let_def)
    then show ?thesis
      using traza_coherente_append[OF p motor_decision_traza[OF m]] by simp
  qed
qed

lemma traza_coherente_None:
  "traza_coherente evs None \<Longrightarrow> list_all (\<lambda>e. \<not> es_escritura e \<and> \<not> es_fallo e) evs"
  by (auto simp: traza_coherente_def list_all_iff)

lemma bucle_dispositivos_traza:
  "bucle_dispositivos env reg t es_inv en_hor devs est = (est', evs, exc)
   \<Longrightarrow> traza_coherente evs exc"
proof (induction devs arbitrary: est est' evs exc)
  case Nil
  then show ?case by (simp add: traza_coherente_def)
next
  case (Cons dev devs)
  obtain est1 evs1 exc1 where p:
    "procesar_dispositivo env reg t es_inv en_hor est dev = (est1, evs1, exc1)"
    by (cases "procesar_dispositivo env reg t es_inv en_hor est dev")
  have t1: "traza_coherente evs1 exc1" using p by (rule procesar_dispositivo_traza)
  show ?case
  proof (cases exc1)
    case (Some x)
    then show ?thesis using Cons.prems p t1 by simp
  next
    case None
    obtain est2 evs2 exc2 where b:
      "bucle_dispositivos env reg t es_inv en_hor devs est1 = (est2, evs2, exc2)"
      by (cases "bucle_dispositivos env reg t es_inv en_hor devs est1")
    have "evs = evs1 @ evs2" "exc = exc2"
      using Cons.prems p None b by simp_all
    then show ?thesis
      using traza_coherente_append[OF traza_coherente_None Cons.IH[OF b]] t1 None by simp
  qed
qed

lemma procesar_update_traza:
  assumes "list_all (\<lambda>e. \<not> es_escritura e \<and> \<not> es_fallo e) (snd (snd st))"
  shows "list_all (\<lambda>e. \<not> es_escritura e \<and> \<not> es_fallo e)
           (snd (snd (procesar_update env t devs h u st)))"
  using assms
  by (cases st) (auto simp: procesar_update_def Let_def list_all_iff
                      dest!: enviar_telegram_eventos)

lemma foldl_update_traza:
  "list_all (\<lambda>e. \<not> es_escritura e \<and> \<not> es_fallo e) (snd (snd st)) \<Longrightarrow>
   list_all (\<lambda>e. \<not> es_escritura e \<and> \<not> es_fallo e)
     (snd (snd (foldl (\<lambda>st r. procesar_update env t devs h r st) st rs)))"
  by (induction rs arbitrary: st) (simp_all add: procesar_update_traza)

lemma check_telegram_commands_traza:
  assumes "check_telegram_commands env reg est t devs h = (reg', est', evs)"
  shows "list_all (\<lambda>e. \<not> es_escritura e \<and> \<not> es_fallo e) evs"
proof -
  have "list_all (\<lambda>e. \<not> es_escritura e \<and> \<not> es_fallo e)
          (snd (snd (foldl (\<lambda>st r. procesar_update env t devs h r st) (reg, est, []) rs)))"
    for rs
    by (rule foldl_update_traza) simp
  note f = this
  show ?thesis
  proof (cases "get_updates env (last_telegram_update_id reg + 1)")
    case PollExcepcion
    then show ?thesis
      using assms by (auto simp: check_telegram_commands_def split: if_splits)
  next
    case (PollRespuesta status rs)
    show ?thesis
    proof (cases "bot_token env \<and> status = 200")
      case True
      then have "evs = snd (snd (foldl (\<lambda>st r. procesar_update env t devs h r st)
                                   (reg, est, []) rs))"
        using assms PollRespuesta by (simp add: check_telegram_commands_def)
      then show ?thesis using f[of rs] by simp
    next
      case False
      then have "evs = []"
        using assms PollRespuesta by (auto simp: check_telegram_commands_def split: if_splits)
      then show ?thesis by simp
    qed
  qed
qed

lemma aviso_caldera_traza:
  "list_all (\<lambda>e. \<not> es_escritura e \<and> \<not> es_fallo e) (aviso_caldera env t)"
  by (auto simp: aviso_caldera_def list_all_iff dest!: enviar_telegram_eventos)

lemma load_json_traza:
  "load_json p f d = (x, evs) \<Longrightarrow> list_all (\<lambda>e. \<not> es_escritura e \<and> \<not> es_fallo e) evs"
  by (auto simp: list_all_iff dest: load_json_eventos)

text \<open>What \<open>main\<close> leaves behind when an exception leaves it.\<close>

lemma main_con_excepcion:
  assumes "main env files = (files', evs, Some x)"
  shows "files' = files \<and> list_all (\<lambda>e. \<not> es_escritura e) evs
       \<and> (x = FalloMelcloud \<and> list_all (\<lambda>e. \<not> es_fallo e) evs
          \<or> (\<exists>n ord pre. x = FalloSet n \<and> evs = pre @ [DevSet n ord False]
                \<and> list_all (\<lambda>e. \<not> es_fallo e) pre))"
proof -
  obtain rj evs_r where lr:
    "load_json ''ultima_accion.json'' (last_action_file files)
       \<lparr>rj_last_telegram_update_id = None, rj_stop_mode = None\<rparr> = (rj, evs_r)"
    by (cases "load_json ''ultima_accion.json'' (last_action_file files)
                 \<lparr>rj_last_telegram_update_id = None, rj_stop_mode = None\<rparr>")
  obtain est0 evs_e where le:
    "load_json ''estado_melcloud.json'' (state_file files) [] = (est0, evs_e)"
    by (cases "load_json ''estado_melcloud.json'' (state_file files) ([] :: estados)")
  obtain temp_ext where c: "clima env = Some temp_ext"
    using assms lr le by (cases "clima env") (simp_all add: main_def Let_def)
  let ?evs1 = "(Log LogInicio # evs_r @ evs_e) @ [Log (LogTempExterior temp_ext)]
                 @ aviso_caldera env temp_ext"
  have p1: "list_all (\<lambda>e. \<not> es_escritura e \<and> \<not> es_fallo e) ?evs1"
    using load_json_traza[OF lr] load_json_traza[OF le] aviso_caldera_traza[of env temp_ext]
    by simp
  show ?thesis
  proof (cases "melcloud env")
    case None
    then have "files' = files" "evs = ?evs1" "x = FalloMelcloud"
      using assms lr le c by (simp_all add: main_def Let_def)
    then show ?thesis using p1 by (auto simp: list_all_iff)
  next
    case (Some devices)
    obtain reg1 est1 evs_c where ch:
      "check_telegram_commands env (registro_inicial rj) est0 temp_ext devices (en_horario_de env)
         = (reg1, est1, evs_c)"
      by (cases "check_telegram_commands env (registro_inicial rj) est0 temp_ext devices
                   (en_horario_de env)")
    obtain est2 evs_d exc where b:
      "bucle_dispositivos env reg1 temp_ext (es_invierno_de env) (en_horario_de env) devices est1
         = (est2, evs_d, exc)"
      by (cases "bucle_dispositivos env reg1 temp_ext (es_invierno_de env) (en_horario_de env)
                   devices est1")
    have ex: "exc = Some x" and f: "files' = files" and ev: "evs = ?evs1 @ evs_c @ evs_d"
      using assms lr le c Some ch b
      by (cases exc; simp add: main_def Let_def guardado_final_def)+
    have p2: "list_all (\<lambda>e. \<not> es_escritura e \<and> \<not> es_fallo e) (?evs1 @ evs_c)"
      using p1 check_telegram_commands_traza[OF ch] by simp
    have "traza_coherente (?evs1 @ evs_c @ evs_d) (Some x)"
      using traza_coherente_append[OF p2 bucle_dispositivos_traza[OF b]] ex by simp
    then have tc: "traza_coherente evs (Some x)" using ev by simp
    then obtain n ord where "x = FalloSet n" "last evs = DevSet n ord False" "evs \<noteq> []"
      "list_all (\<lambda>e. \<not> es_fallo e) (butlast evs)" "list_all (\<lambda>e. \<not> es_escritura e) evs"
      by (auto simp: traza_coherente_def)
    moreover from this have "evs = butlast evs @ [DevSet n ord False]"
      by (metis append_butlast_last_id)
    ultimately show ?thesis using f by blast
  qed
qed

lemma main_sin_excepcion:
  assumes "main env files = (files', evs, None)"
  shows "list_all (\<lambda>e. \<not> es_fallo e) evs"
proof -
  obtain rj evs_r where lr:
    "load_json ''ultima_accion.json'' (last_action_file files)
       \<lparr>rj_last_telegram_update_id = None, rj_stop_mode = None\<rparr> = (rj, evs_r)"
    by (cases "load_json ''ultima_accion.json'' (last_action_file files)
                 \<lparr>rj_last_telegram_update_id = None, rj_stop_mode = None\<rparr>")
  obtain est0 evs_e where le:
    "load_json ''estado_melcloud.json'' (state_file files) [] = (est0, evs_e)"
    by (cases "load_json ''estado_melcloud.json'' (state_file files) ([] :: estados)")
  have p0: "list_all (\<lambda>e. \<not> es_escritura e \<and> \<not> es_fallo e) (Log LogInicio # evs_r @ evs_e)"
    using load_json_traza[OF lr] load_json_traza[OF le] by simp
  show ?thesis
  proof (cases "clima env")
    case None
    then have "evs = (Log LogInicio # evs_r @ evs_e) @ [Log LogErrorClima]"
      using assms lr le by (simp add: main_def Let_def)
    then show ?thesis using p0 by (auto simp: list_all_iff)
  next
    case (Some temp_ext)
    let ?evs1 = "(Log LogInicio # evs_r @ evs_e) @ [Log (LogTempExterior temp_ext)]
                   @ aviso_caldera env temp_ext"
    have p1: "list_all (\<lambda>e. \<not> es_escritura e \<and> \<not> es_fallo e) ?evs1"
      using p0 aviso_caldera_traza[of env temp_ext] by simp
    obtain devices where d: "melcloud env = Some devices"
      using assms lr le Some by (cases "melcloud env") (simp_all add: main_def Let_def)
    obtain reg1 est1 evs_c where ch:
      "check_telegram_commands env (registro_inicial rj) est0 temp_ext devices (en_horario_de env)
         = (reg1, est1, evs_c)"
      by (cases "check_telegram_commands env (registro_inicial rj) est0 temp_ext devices
                   (en_horario_de env)")
    obtain est2 evs_d exc where b:
      "bucle_dispositivos env reg1 temp_ext (es_invierno_de env) (en_horario_de env) devices est1
         = (est2, evs_d, exc)"
      by (cases "bucle_dispositivos env reg1 temp_ext (es_invierno_de env) (en_horario_de env)
                   devices est1")
    have ex: "exc = None"
      and ev: "evs = ?evs1 @ evs_c @ evs_d
                 @ [SaveState est2, SaveRegistro reg1, AppendCsv temp_ext, Log LogFin]"
      using assms lr le Some d ch b
      by (cases exc; simp add: main_def Let_def guardado_final_def)+
    have "list_all (\<lambda>e. \<not> es_escritura e \<and> \<not> es_fallo e) evs_d"
      using bucle_dispositivos_traza[OF b] ex by (simp add: traza_coherente_None)
    then show ?thesis
      using p1 check_telegram_commands_traza[OF ch] ev by (auto simp: list_all_iff)
  qed
qed

text \<open>
  C2, as the code has it. No call of \<open>dev.set\<close> stands inside a \<open>try\<close>: when one
  raises, the exception leaves the loop and \<open>main\<close> and is caught by \<open>run_safe\<close>. So if
  the trace of a run holds a failed call for device \<open>n\<close>, that call is the last thing
  the cycle did before the fatal log line of \<open>run_safe\<close>: no device after it is
  handled, no earlier call failed, nothing was written, and the three files are exactly
  the ones the cycle found. The stored memory of the device is therefore not advanced,
  and neither is any other.
\<close>

theorem fallo_de_set_aborta_ciclo:
  assumes "run_safe env files = (files', evs)" and "DevSet n ord False \<in> set evs"
  shows "files' = files
       \<and> (\<exists>pre. evs = pre @ [DevSet n ord False, Log (LogFatal (FalloSet n))]
                \<and> list_all (\<lambda>e. \<not> es_fallo e \<and> \<not> es_escritura e) pre)"
proof -
  obtain f ev exc where m: "main env files = (f, ev, exc)"
    by (cases "main env files")
  show ?thesis
  proof (cases exc)
    case None
    then have "evs = ev" using assms(1) m by (simp add: run_safe_def)
    moreover have "list_all (\<lambda>e. \<not> es_fallo e) ev"
      using m None main_sin_excepcion by simp
    ultimately show ?thesis using assms(2) by (auto simp: list_all_iff)
  next
    case (Some x)
    then have r: "files' = f" "evs = ev @ [Log (LogFatal x)]"
      using assms(1) m by (simp_all add: run_safe_def)
    have in_ev: "DevSet n ord False \<in> set ev" using assms(2) r by simp
    have c: "f = files \<and> list_all (\<lambda>e. \<not> es_escritura e) ev
       \<and> (x = FalloMelcloud \<and> list_all (\<lambda>e. \<not> es_fallo e) ev
          \<or> (\<exists>n ord pre. x = FalloSet n \<and> ev = pre @ [DevSet n ord False]
                \<and> list_all (\<lambda>e. \<not> es_fallo e) pre))"
      using m Some main_con_excepcion by simp
    then consider "x = FalloMelcloud" "list_all (\<lambda>e. \<not> es_fallo e) ev"
      | n' ord' pre where "x = FalloSet n'" "ev = pre @ [DevSet n' ord' False]"
          "list_all (\<lambda>e. \<not> es_fallo e) pre"
      by blast
    then show ?thesis
    proof cases
      case 1
      then show ?thesis using in_ev by (auto simp: list_all_iff)
    next
      case 2
      have "DevSet n ord False \<notin> set pre"
        using 2(3) by (auto simp: list_all_iff)
      then have "n' = n" "ord' = ord" using in_ev 2(2) by auto
      then have "evs = pre @ [DevSet n ord False, Log (LogFatal (FalloSet n))]"
        using r 2 by simp
      moreover have "list_all (\<lambda>e. \<not> es_fallo e \<and> \<not> es_escritura e) pre"
        using 2 c by (auto simp: list_all_iff)
      ultimately show ?thesis using r c by blast
    qed
  qed
qed

text \<open>
  Two devices, both on, five degrees below zero; the first one's \<open>set\<close> raises. The run
  ends at the fatal log line: the second device is never reached, and no file is written.
\<close>

theorem fallo_de_set_counterexample:
  "run_safe entorno_fallo archivos_vacios
     = (archivos_vacios,
        [Log LogInicio, Log (LogTempExterior (- 5)), Log LogAvisoCaldera,
         Telegram AvisoCaldera (- 5),
         Log (LogDispositivo ''Jimena'' True 21 21), DevSet ''Jimena'' Apagar False,
         Log (LogFatal (FalloSet ''Jimena''))])"
  by (simp add: run_safe_def main_def load_json_def archivos_vacios_def entorno_fallo_def
        entorno_ejemplo_def jimena_falla_def elisa_def registro_inicial_def es_invierno_de_def
        en_horario_de_def aviso_caldera_def enviar_telegram_def check_telegram_commands_def
        procesar_dispositivo_def recuperar_memoria_def gestion_bloqueo_def cambio_manual_def
        actualizar_memoria_def temp_objetivo_def TEMP_OBJETIVOS_def nombre_salon_def
        motor_decision_def apagar_def UMBRAL_SEGURIDAD_FRIO_def)

theorem fallo_de_set_aborta_ciclo_witness:
  "run_safe entorno_fallo archivos_vacios
     = (archivos_vacios,
        [Log LogInicio, Log (LogTempExterior (- 5)), Log LogAvisoCaldera,
         Telegram AvisoCaldera (- 5),
         Log (LogDispositivo ''Jimena'' True 21 21)]
        @ [DevSet ''Jimena'' Apagar False, Log (LogFatal (FalloSet ''Jimena''))])
   \<and> DevSet ''Jimena'' Apagar False
       \<in> set ([Log LogInicio, Log (LogTempExterior (- 5)), Log LogAvisoCaldera,
         Telegram AvisoCaldera (- 5),
         Log (LogDispositivo ''Jimena'' True 21 21)]
        @ [DevSet ''Jimena'' Apagar False, Log (LogFatal (FalloSet ''Jimena''))])"
proof -
  have h: "run_safe entorno_fallo archivos_vacios
     = (archivos_vacios,
        [Log LogInicio, Log (LogTempExterior (- 5)), Log LogAvisoCaldera,
         Telegram AvisoCaldera (- 5),
         Log (LogDispositivo ''Jimena'' True 21 21)]
        @ [DevSet ''Jimena'' Apagar False, Log (LogFatal (FalloSet ''Jimena''))])"
    by (simp add: run_safe_def main_def load_json_def archivos_vacios_def entorno_fallo_def
        entorno_ejemplo_def jimena_falla_def elisa_def registro_inicial_def es_invierno_de_def
        en_horario_de_def aviso_caldera_def enviar_telegram_def check_telegram_commands_def
        procesar_dispositivo_def recuperar_memoria_def gestion_bloqueo_def cambio_manual_def
        actualizar_memoria_def temp_objetivo_def TEMP_OBJETIVOS_def nombre_salon_def
        motor_decision_def apagar_def UMBRAL_SEGURIDAD_FRIO_def)
  have i: "DevSet ''Jimena'' Apagar False
       \<in> set ([Log LogInicio, Log (LogTempExterior (- 5)), Log LogAvisoCaldera,
         Telegram AvisoCaldera (- 5),
         Log (LogDispositivo ''Jimena'' True 21 21)]
        @ [DevSet ''Jimena'' Apagar False, Log (LogFatal (FalloSet ''Jimena''))])"
    by simp
  show ?thesis
    using fallo_de_set_aborta_ciclo[OF h i] h i by blast
qed

subsection \<open>The lockout across a cycle\<close>

lemma reset_bloqueos_idem: "reset_bloqueos (reset_bloqueos e) = reset_bloqueos e"
  by (induction e) (auto simp: reset_bloqueos_def)

lemma map_of_reset_bloqueos:
  "map_of (reset_bloqueos e) n = map_option (\<lambda>mem. mem\<lparr>bloqueo_hasta := 0\<rparr>) (map_of e n)"
  by (induction e) (auto simp: reset_bloqueos_def)

lemma foldl_update_estados:
  "fst (snd (foldl (\<lambda>st r. procesar_update env t devs h r st) st rs))
     = (if list_ex (\<lambda>u. str_in ''/reset'' (texto u)) rs then reset_bloqueos (fst (snd st))
        else fst (snd st))"
  by (induction rs arbitrary: st)
     (simp_all add: procesar_update_estados reset_bloqueos_idem)

lemma check_telegram_commands_estados:
  assumes "check_telegram_commands env reg est t devs h = (reg', est', evs)"
  shows "est' = (if reset_pedido env reg then reset_bloqueos est else est)"
proof (cases "get_updates env (last_telegram_update_id reg + 1)")
  case PollExcepcion
  then show ?thesis
    using assms by (auto simp: check_telegram_commands_def reset_pedido_def split: if_splits)
next
  case (PollRespuesta status rs)
  show ?thesis
  proof (cases "bot_token env \<and> status = 200")
    case True
    then have "est' = fst (snd (foldl (\<lambda>st r. procesar_update env t devs h r st)
                                  (reg, est, []) rs))"
      using assms PollRespuesta by (simp add: check_telegram_commands_def)
    then show ?thesis
      using True PollRespuesta by (simp add: foldl_update_estados reset_pedido_def)
  next
    case False
    then have "est' = est" "\<not> reset_pedido env reg"
      using assms PollRespuesta
      by (auto simp: check_telegram_commands_def reset_pedido_def split: if_splits)
    then show ?thesis by simp
  qed
qed

lemma gestion_bloqueo_cases:
  "gestion_bloqueo env t dev mem =
     (mem\<lparr>bloqueo_hasta := ahora_ts env + DURACION_BLOQUEO_MANUAL\<rparr>,
      Log (LogManual (name dev))
      # enviar_telegram env (AvisoManual (name dev) (target_temperature dev)) t)
     \<and> cambio_manual mem dev \<and> ahora_ts env > bloqueo_hasta mem
   \<or> gestion_bloqueo env t dev mem = (mem, [])
     \<and> \<not> (cambio_manual mem dev \<and> ahora_ts env > bloqueo_hasta mem)"
  by (simp add: gestion_bloqueo_def)

lemma procesar_dispositivo_entrada:
  assumes "procesar_dispositivo env reg t es_inv en_hor est dev = (est', evs, exc)"
    and "map_of est n = Some m"
  shows "\<exists>m'. map_of est' n = Some m'
           \<and> (if name dev = n
              then bloqueo_hasta m' = bloqueo_hasta m
                   \<or> bloqueo_hasta m' = ahora_ts env + DURACION_BLOQUEO_MANUAL
                     \<and> ahora_ts env > bloqueo_hasta m \<and> cambio_manual m dev
                     \<and> Log (LogManual n) \<in> set evs
              else m' = m)"
proof (cases "name dev = n")
  case False
  then have "map_of est' n = map_of est n"
    using assms(1)
    by (auto simp: procesar_dispositivo_def Let_def update_conv' split: prod.splits if_splits)
  then show ?thesis using assms(2) False by simp
next
  case True
  then have r: "recuperar_memoria est dev = m"
    using assms(2) by (simp add: recuperar_memoria_def)
  obtain mem1 evs1 where g: "gestion_bloqueo env t dev m = (mem1, evs1)"
    by (cases "gestion_bloqueo env t dev m")
  have g1: "bloqueo_hasta mem1 = bloqueo_hasta m
            \<or> bloqueo_hasta mem1 = ahora_ts env + DURACION_BLOQUEO_MANUAL
              \<and> ahora_ts env > bloqueo_hasta m \<and> cambio_manual m dev
              \<and> Log (LogManual n) \<in> set evs1"
    using gestion_bloqueo_cases[of env t dev m] g True by auto
  obtain mem3 evs2 exc2 where md:
    "motor_decision env reg t es_inv en_hor (temp_objetivo (name dev)) dev
       (actualizar_memoria dev mem1) = (mem3, evs2, exc2)"
    by (cases "motor_decision env reg t es_inv en_hor (temp_objetivo (name dev)) dev
                 (actualizar_memoria dev mem1)")
  have b3: "bloqueo_hasta mem3 = bloqueo_hasta mem1"
    using motor_decision_bloqueo[of env reg t es_inv en_hor "temp_objetivo (name dev)" dev
            "actualizar_memoria dev mem1"] md
    by (simp add: actualizar_memoria_def)
  have "\<exists>m'. map_of est' n = Some m' \<and> bloqueo_hasta m' = bloqueo_hasta mem1
             \<and> set evs1 \<subseteq> set evs"
    using assms(1) r g md b3 True
    by (auto simp: procesar_dispositivo_def Let_def update_conv' actualizar_memoria_def
             split: if_splits)
  then show ?thesis using g1 True by auto
qed

lemma procesar_dispositivo_otros:
  assumes "procesar_dispositivo env reg t es_inv en_hor est dev = (est', evs, exc)"
    and "name dev \<noteq> n"
  shows "map_of est' n = map_of est n"
  using assms
  by (auto simp: procesar_dispositivo_def Let_def update_conv' split: prod.splits if_splits)

lemma bucle_dispositivos_otros:
  "bucle_dispositivos env reg t es_inv en_hor devs est = (est', evs, exc)
   \<Longrightarrow> n \<notin> name ` set devs \<Longrightarrow> map_of est' n = map_of est n"
proof (induction devs arbitrary: est est' evs exc)
  case Nil
  then show ?case by simp
next
  case (Cons dev devs)
  obtain est1 evs1 exc1 where p:
    "procesar_dispositivo env reg t es_inv en_hor est dev = (est1, evs1, exc1)"
    by (cases "procesar_dispositivo env reg t es_inv en_hor est dev")
  have o: "map_of est1 n = map_of est n"
    using procesar_dispositivo_otros[OF p] Cons.prems(2) by auto
  show ?case
  proof (cases exc1)
    case (Some x)
    then show ?thesis using Cons.prems(1) p o by simp
  next
    case None
    obtain est2 evs2 exc2 where b:
      "bucle_dispositivos env reg t es_inv en_hor devs est1 = (est2, evs2, exc2)"
      by (cases "bucle_dispositivos env reg t es_inv en_hor devs est1")
    have "est' = est2" using Cons.prems(1) p None b by simp
    moreover have "map_of est2 n = map_of est1 n"
      using Cons.IH[OF b] Cons.prems(2) by simp
    ultimately show ?thesis using o by simp
  qed
qed

lemma bucle_dispositivos_entrada:
  "bucle_dispositivos env reg t es_inv en_hor devs est = (est', evs, exc)
   \<Longrightarrow> map_of est n = Some m
   \<Longrightarrow> \<exists>m'. map_of est' n = Some m'
          \<and> (bloqueo_hasta m' = bloqueo_hasta m
             \<or> bloqueo_hasta m' = ahora_ts env + DURACION_BLOQUEO_MANUAL
               \<and> ahora_ts env > bloqueo_hasta m \<and> Log (LogManual n) \<in> set evs)"
proof (induction devs arbitrary: est est' evs exc m)
  case Nil
  then show ?case by simp
next
  case (Cons dev devs)
  obtain est1 evs1 exc1 where p:
    "procesar_dispositivo env reg t es_inv en_hor est dev = (est1, evs1, exc1)"
    by (cases "procesar_dispositivo env reg t es_inv en_hor est dev")
  obtain m1 where m1: "map_of est1 n = Some m1"
    and s1: "bloqueo_hasta m1 = bloqueo_hasta m
             \<or> bloqueo_hasta m1 = ahora_ts env + DURACION_BLOQUEO_MANUAL
               \<and> ahora_ts env > bloqueo_hasta m \<and> Log (LogManual n) \<in> set evs1"
    using procesar_dispositivo_entrada[OF p Cons.prems(2)] by (auto split: if_splits)
  show ?case
  proof (cases exc1)
    case (Some x)
    then have "est' = est1" "evs = evs1" using Cons.prems(1) p by simp_all
    then show ?thesis using m1 s1 by auto
  next
    case None
    obtain est2 evs2 exc2 where b:
      "bucle_dispositivos env reg t es_inv en_hor devs est1 = (est2, evs2, exc2)"
      by (cases "bucle_dispositivos env reg t es_inv en_hor devs est1")
    have e: "est' = est2" "evs = evs1 @ evs2" using Cons.prems(1) p None b by simp_all
    obtain m2 where m2: "map_of est2 n = Some m2"
      and s2: "bloqueo_hasta m2 = bloqueo_hasta m1
               \<or> bloqueo_hasta m2 = ahora_ts env + DURACION_BLOQUEO_MANUAL
                 \<and> ahora_ts env > bloqueo_hasta m1 \<and> Log (LogManual n) \<in> set evs2"
      using Cons.IH[OF b m1] by auto
    have "bloqueo_hasta m2 = bloqueo_hasta m
          \<or> bloqueo_hasta m2 = ahora_ts env + DURACION_BLOQUEO_MANUAL
            \<and> ahora_ts env > bloqueo_hasta m \<and> Log (LogManual n) \<in> set (evs1 @ evs2)"
      using s1 s2 by auto
    then show ?thesis using e m2 by auto
  qed
qed

lemma bucle_dispositivos_cambio:
  "bucle_dispositivos env reg t es_inv en_hor devs est = (est', evs, exc)
   \<Longrightarrow> distinct (map name devs) \<Longrightarrow> map_of est n = Some m \<Longrightarrow> map_of est' n = Some m'
   \<Longrightarrow> bloqueo_hasta m' \<noteq> bloqueo_hasta m
   \<Longrightarrow> \<exists>dev \<in> set devs. name dev = n \<and> cambio_manual m dev"
proof (induction devs arbitrary: est est' evs exc)
  case Nil
  then show ?case by simp
next
  case (Cons dev devs)
  obtain est1 evs1 exc1 where p:
    "procesar_dispositivo env reg t es_inv en_hor est dev = (est1, evs1, exc1)"
    by (cases "procesar_dispositivo env reg t es_inv en_hor est dev")
  obtain m1 where m1: "map_of est1 n = Some m1"
    and s1: "if name dev = n
             then bloqueo_hasta m1 = bloqueo_hasta m
                  \<or> bloqueo_hasta m1 = ahora_ts env + DURACION_BLOQUEO_MANUAL
                    \<and> ahora_ts env > bloqueo_hasta m \<and> cambio_manual m dev
                    \<and> Log (LogManual n) \<in> set evs1
             else m1 = m"
    using procesar_dispositivo_entrada[OF p Cons.prems(3)] by blast
  have rest: "map_of est' n = map_of est1 n" if "name dev = n"
  proof (cases exc1)
    case (Some x)
    then show ?thesis using Cons.prems(1) p by simp
  next
    case None
    obtain est2 evs2 exc2 where b:
      "bucle_dispositivos env reg t es_inv en_hor devs est1 = (est2, evs2, exc2)"
      by (cases "bucle_dispositivos env reg t es_inv en_hor devs est1")
    have "n \<notin> name ` set devs" using Cons.prems(2) that by auto
    then have "map_of est2 n = map_of est1 n" using bucle_dispositivos_otros[OF b] by simp
    moreover have "est' = est2" using Cons.prems(1) p None b by simp
    ultimately show ?thesis by simp
  qed
  show ?case
  proof (cases "name dev = n")
    case True
    then have "m' = m1" using rest m1 Cons.prems(4) by simp
    then have "cambio_manual m dev" using s1 True Cons.prems(5) by auto
    then show ?thesis using True by auto
  next
    case False
    then have eq: "m1 = m" using s1 by simp
    show ?thesis
    proof (cases exc1)
      case (Some x)
      then have "est' = est1" using Cons.prems(1) p by simp
      then show ?thesis using m1 eq Cons.prems(4,5) by simp
    next
      case None
      obtain est2 evs2 exc2 where b:
        "bucle_dispositivos env reg t es_inv en_hor devs est1 = (est2, evs2, exc2)"
        by (cases "bucle_dispositivos env reg t es_inv en_hor devs est1")
      have "est' = est2" using Cons.prems(1) p None b by simp
      then have "\<exists>dev \<in> set devs. name dev = n \<and> cambio_manual m dev"
        using Cons.IH[OF b] Cons.prems(2,4,5) m1 eq by simp
      then show ?thesis by auto
    qed
  qed
qed

text \<open>The two ways a cycle can end, seen from the memory store.\<close>

lemma main_estados:
  assumes "state_file files = Contenido est0"
  shows "fst (main env files) = files
       \<or> (\<exists>temp_ext devices reg1 est1 evs_c est2 evs_d.
            melcloud env = Some devices
            \<and> check_telegram_commands env (registro_cargado files) est0 temp_ext devices
                 (en_horario_de env) = (reg1, est1, evs_c)
            \<and> bucle_dispositivos env reg1 temp_ext (es_invierno_de env) (en_horario_de env)
                 devices est1 = (est2, evs_d, None)
            \<and> state_file (fst (main env files)) = Contenido est2
            \<and> set evs_d \<subseteq> set (fst (snd (main env files))))"
proof -
  obtain rj evs_r where lr:
    "load_json ''ultima_accion.json'' (last_action_file files)
       \<lparr>rj_last_telegram_update_id = None, rj_stop_mode = None\<rparr> = (rj, evs_r)"
    by (cases "load_json ''ultima_accion.json'' (last_action_file files)
                 \<lparr>rj_last_telegram_update_id = None, rj_stop_mode = None\<rparr>")
  have rc: "registro_cargado files = registro_inicial rj"
    using lr by (simp add: registro_cargado_def)
  have le: "load_json ''estado_melcloud.json'' (state_file files) [] = (est0, [])"
    using assms by (simp add: load_json_def)
  show ?thesis
  proof (cases "clima env")
    case None
    then show ?thesis using lr le by (simp add: main_def Let_def)
  next
    case (Some temp_ext)
    show ?thesis
    proof (cases "melcloud env")
      case None
      then show ?thesis using lr le Some by (simp add: main_def Let_def)
    next
      case (Some devices)
      obtain reg1 est1 evs_c where ch:
        "check_telegram_commands env (registro_inicial rj) est0 temp_ext devices
           (en_horario_de env) = (reg1, est1, evs_c)"
        by (cases "check_telegram_commands env (registro_inicial rj) est0 temp_ext devices
                     (en_horario_de env)")
      obtain est2 evs_d exc where b:
        "bucle_dispositivos env reg1 temp_ext (es_invierno_de env) (en_horario_de env) devices
           est1 = (est2, evs_d, exc)"
        by (cases "bucle_dispositivos env reg1 temp_ext (es_invierno_de env) (en_horario_de env)
                     devices est1")
      show ?thesis
      proof (cases exc)
        case (Some x)
        then have "fst (main env files) = files"
          using lr le \<open>clima env = Some temp_ext\<close> \<open>melcloud env = Some devices\<close> ch b
          by (simp add: main_def Let_def)
        then show ?thesis by simp
      next
        case None
        then have "state_file (fst (main env files)) = Contenido est2"
          and "set evs_d \<subseteq> set (fst (snd (main env files)))"
          using lr le \<open>clima env = Some temp_ext\<close> \<open>melcloud env = Some devices\<close> ch b
          by (auto simp: main_def Let_def guardado_final_def)
        moreover have "bucle_dispositivos env reg1 temp_ext (es_invierno_de env)
                         (en_horario_de env) devices est1 = (est2, evs_d, None)"
          using b None by simp
        moreover have "check_telegram_commands env (registro_cargado files) est0 temp_ext
                         devices (en_horario_de env) = (reg1, est1, evs_c)"
          using ch rc by simp
        ultimately show ?thesis
          using \<open>melcloud env = Some devices\<close> by blast
      qed
    qed
  qed
qed

text \<open>
  C4. Take any entry of the persisted memory store and one whole cycle, however it
  ends. The entry is still in the store afterwards, and its \<open>lockout_until\<close> is the old
  value, or zero because this cycle's poll delivered a reset, or \<open>now + 3600\<close>. The last
  happens only if \<open>now\<close> is past the lockout the detection found (the old one, or zero
  after a reset), so the device was not inside a running lockout, and only with the
  manual-change line in the log; with device names unique, a device of that name shows
  a power or target different from the stored ones. Without a reset the value never
  decreases.
\<close>

theorem bloqueo_monotono:
  assumes "state_file files = Contenido estados0" and "map_of estados0 n = Some mem0"
  shows "\<exists>estados1 mem1.
           state_file (fst (main env files)) = Contenido estados1
         \<and> map_of estados1 n = Some mem1
         \<and> (bloqueo_hasta mem1 = bloqueo_hasta mem0
            \<or> bloqueo_hasta mem1 = 0 \<and> reset_pedido env (registro_cargado files)
            \<or> bloqueo_hasta mem1 = ahora_ts env + DURACION_BLOQUEO_MANUAL
              \<and> ahora_ts env
                  > (if reset_pedido env (registro_cargado files) then 0 else bloqueo_hasta mem0)
              \<and> Log (LogManual n) \<in> set (fst (snd (main env files)))
              \<and> (\<forall>devices. melcloud env = Some devices \<and> distinct (map name devices)
                    \<longrightarrow> (\<exists>dev \<in> set devices. name dev = n \<and> cambio_manual mem0 dev)))
         \<and> (\<not> reset_pedido env (registro_cargado files)
              \<longrightarrow> bloqueo_hasta mem0 \<le> bloqueo_hasta mem1)"
proof -
  let ?reset = "reset_pedido env (registro_cargado files)"
  consider "fst (main env files) = files"
    | temp_ext devices reg1 est1 evs_c est2 evs_d where
        "melcloud env = Some devices"
        "check_telegram_commands env (registro_cargado files) estados0 temp_ext devices
           (en_horario_de env) = (reg1, est1, evs_c)"
        "bucle_dispositivos env reg1 temp_ext (es_invierno_de env) (en_horario_de env)
           devices est1 = (est2, evs_d, None)"
        "state_file (fst (main env files)) = Contenido est2"
        "set evs_d \<subseteq> set (fst (snd (main env files)))"
    using main_estados[OF assms(1), of env] by blast
  then show ?thesis
  proof cases
    case 1
    then show ?thesis using assms by auto
  next
    case 2
    let ?mc = "if ?reset then mem0\<lparr>bloqueo_hasta := 0\<rparr> else mem0"
    have e1: "est1 = (if ?reset then reset_bloqueos estados0 else estados0)"
      using check_telegram_commands_estados[OF 2(2)] .
    have mc: "map_of est1 n = Some ?mc"
      using e1 assms(2) by (simp add: map_of_reset_bloqueos)
    have bc: "bloqueo_hasta ?mc = (if ?reset then 0 else bloqueo_hasta mem0)" by simp
    have cc: "cambio_manual ?mc dev = cambio_manual mem0 dev" for dev
      by (simp add: cambio_manual_def)
    obtain mem1 where m1: "map_of est2 n = Some mem1"
      and s: "bloqueo_hasta mem1 = bloqueo_hasta ?mc
              \<or> bloqueo_hasta mem1 = ahora_ts env + DURACION_BLOQUEO_MANUAL
                \<and> ahora_ts env > bloqueo_hasta ?mc \<and> Log (LogManual n) \<in> set evs_d"
      using bucle_dispositivos_entrada[OF 2(3) mc] by blast
    have d: "\<exists>dev \<in> set devices. name dev = n \<and> cambio_manual mem0 dev"
      if "distinct (map name devices)" "bloqueo_hasta mem1 \<noteq> bloqueo_hasta ?mc"
      using bucle_dispositivos_cambio[OF 2(3) that(1) mc m1 that(2)] cc by simp
    have dur: "ahora_ts env < ahora_ts env + DURACION_BLOQUEO_MANUAL"
      by (simp add: DURACION_BLOQUEO_MANUAL_def)
    show ?thesis
    proof (cases "bloqueo_hasta mem1 = bloqueo_hasta ?mc")
      case True
      then show ?thesis using 2(4) m1 bc by (cases ?reset) auto
    next
      case False
      then have a: "bloqueo_hasta mem1 = ahora_ts env + DURACION_BLOQUEO_MANUAL"
        and b: "ahora_ts env > (if ?reset then 0 else bloqueo_hasta mem0)"
        and l: "Log (LogManual n) \<in> set (fst (snd (main env files)))"
        using s bc 2(5) by auto
      have c: "\<forall>devs. melcloud env = Some devs \<and> distinct (map name devs)
                 \<longrightarrow> (\<exists>dev \<in> set devs. name dev = n \<and> cambio_manual mem0 dev)"
        using d False 2(1) by auto
      have mono: "\<not> ?reset \<longrightarrow> bloqueo_hasta mem0 \<le> bloqueo_hasta mem1"
        using a b dur by auto
      show ?thesis using 2(4) m1 a b l c mono by blast
    qed
  qed
qed

theorem bloqueo_monotono_witness:
  "state_file archivos_con_memoria = Contenido [(''Elisa'', memoria_apagada)]
   \<and> map_of [(''Elisa'', memoria_apagada)] ''Elisa'' = Some memoria_apagada
   \<and> state_file (fst (main entorno_manual archivos_con_memoria))
       = Contenido [(''Elisa'', \<lparr>mem_power = True, mem_target_temperature = 21,
                                   bloqueo_hasta = 3800\<rparr>)]
   \<and> \<not> reset_pedido entorno_manual (registro_cargado archivos_con_memoria)
   \<and> bloqueo_hasta memoria_apagada = 100"
proof -
  have h1: "state_file archivos_con_memoria = Contenido [(''Elisa'', memoria_apagada)]"
    by (simp add: archivos_con_memoria_def)
  have h2: "map_of [(''Elisa'', memoria_apagada)] ''Elisa'' = Some memoria_apagada"
    by simp
  have m: "state_file (fst (main entorno_manual archivos_con_memoria))
       = Contenido [(''Elisa'', \<lparr>mem_power = True, mem_target_temperature = 21,
                                   bloqueo_hasta = 3800\<rparr>)]"
    by (simp add: main_def load_json_def archivos_con_memoria_def entorno_manual_def
        entorno_ejemplo_def elisa_def memoria_apagada_def registro_inicial_def es_invierno_de_def
        en_horario_de_def aviso_caldera_def enviar_telegram_def check_telegram_commands_def
        procesar_dispositivo_def recuperar_memoria_def gestion_bloqueo_def cambio_manual_def
        actualizar_memoria_def temp_objetivo_def TEMP_OBJETIVOS_def nombre_salon_def
        DURACION_BLOQUEO_MANUAL_def guardado_final_def Let_def)
  have r: "\<not> reset_pedido entorno_manual (registro_cargado archivos_con_memoria)"
    by (simp add: reset_pedido_def entorno_manual_def entorno_ejemplo_def)
  have b: "bloqueo_hasta memoria_apagada = 100"
    by (simp add: memoria_apagada_def)
  show ?thesis
    using bloqueo_monotono[OF h1 h2, of entorno_manual] h1 h2 m r b by blast
qed

end
